theory Spec2Isabelle
  imports Main
begin

section \<open>Control-plane elastic IP reconciliation\<close>

text \<open>
  A shallow embedding of \<^verbatim>\<open>eip_controlplane_reconciliation.go\<close>. The file holds two
  variants of the same manager: the earlier one of package \<^verbatim>\<open>packet\<close> (lines 1-254) and
  the later one of package \<^verbatim>\<open>metal\<close> (lines 255-629). The later variant keeps the source's
  names; the functions of the earlier one carry the suffix \<open>_packet\<close>.

  Everything the manager does besides computing a value is a call to a collaborator:
  the reservation service, the device service, the instance lookup, the HTTP client and
  the orchestrator client. Each function of the model returns, next to its result, the
  list of the calls it issued, in the order it issued them.
\<close>

subsection \<open>Errors\<close>

text \<open>
  One constructor per error the file builds itself (\<^verbatim>\<open>errors.New\<close>, \<^verbatim>\<open>fmt.Errorf\<close>), with
  the values it formats into the message as arguments, and \<open>ErrExternal\<close> for an error
  value handed back by a collaborator, which the file passes on as it is.
\<close>

datatype error =
    ErrExternal string
  | ErrPortNotProvided
      \<comment> \<open>control plane apiserver port not provided or determined, cannot check, ...\<close>
  | ErrLoadbalancerTagEmpty
      \<comment> \<open>control plane loadbalancer elastic ip tag is empty. Nothing to do\<close>
  | ErrTagEmpty
      \<comment> \<open>elastic ip tag is empty. Nothing to do\<close>
  | ErrMoreThanOneNode string
      \<comment> \<open>the elastic ip %s has more than one node assigned to it and this is currently not
          supported. ...\<close>
  | ErrNodePortNotDetermined
      \<comment> \<open>control plane node apiserver port not yet determined, cannot reassign, ...\<close>
  | ErrNoGoodCandidate
      \<comment> \<open>ccm didn't find a good candidate for IP allocation. Cluster is unhealthy\<close>
  | ErrNoPortsDefined
      \<comment> \<open>default/kubernetes service does not have any ports defined\<close>
  | ErrGetEndpoints string error
      \<comment> \<open>failed to get endpoints %s: %v\<close>
  | ErrUpdateMyEndpoints error
      \<comment> \<open>failed to update my endpoints: %v\<close>
  | ErrCreateMyEndpoints error
      \<comment> \<open>failed to create my endpoints: %v\<close>
  | ErrUpdateService error
      \<comment> \<open>failed to update service: %v\<close>
  | ErrCreateService error
      \<comment> \<open>failed to create service: %v\<close>
  | ErrGetServiceForStatus string error
      \<comment> \<open>could not get service %s for status update: %v\<close>
  | ErrUpdateServiceStatus error
      \<comment> \<open>failed to update service status: %v\<close>
  | ErrServiceNotFound
      \<comment> \<open>Service default/kubernetes not found\<close>

text \<open>A Go function returns its error (\<open>None\<close> is \<^verbatim>\<open>nil\<close>) or panics.\<close>

datatype outcome = Returned "error option" | Panicked

subsection \<open>Data\<close>

record ipAssignment =
  asg_ID :: string

record ipAddressReservation =
  res_ID :: string
  res_Address :: string
  res_Tags :: "string list"
  res_Assignments :: "ipAssignment list"

record node =
  node_Name :: string
  node_Labels :: "string \<rightharpoonup> string"

record nodeAddress =
  addr_Type :: string
  addr_Address :: string

text \<open>
  Of an HTTP response the file reads the status code and whether the body is present
  (\<^verbatim>\<open>resp.Body != nil\<close>).
\<close>

record httpResponse =
  StatusCode :: int
  BodyPresent :: bool

text \<open>
  \<^verbatim>\<open>Client.Do\<close> returns \<^verbatim>\<open>(resp, err)\<close>. With \<^verbatim>\<open>err == nil\<close> there is a response. With
  \<^verbatim>\<open>err != nil\<close> the response is \<^verbatim>\<open>nil\<close>, except when the redirect policy stopped the
  request: then the previous response comes back with the error, its body already
  closed by the client.
\<close>

datatype doResult =
    DoError error "httpResponse option"
  | DoResponse httpResponse

record intOrString =
  IntVal :: int
  StrVal :: string

record servicePort =
  sp_Name :: string
  sp_Protocol :: string
  sp_Port :: int
  sp_TargetPort :: intOrString
  sp_NodePort :: int

record serviceSpec =
  spec_Type :: string
  spec_LoadBalancerIP :: string
  spec_Ports :: "servicePort list"
  spec_ExternalIPs :: "string list"
  spec_ClusterIP :: string
  spec_Selector :: "string \<rightharpoonup> string"

record service =
  svc_Name :: string
  svc_Namespace :: string
  svc_Labels :: "string \<rightharpoonup> string"
  svc_Annotations :: "string \<rightharpoonup> string"
  svc_ResourceVersion :: string
  svc_Spec :: serviceSpec
  svc_Status :: "string list"
    \<comment> \<open>\<^verbatim>\<open>Status.LoadBalancer.Ingress\<close>, each entry by its \<^verbatim>\<open>IP\<close>\<close>

record endpointSubset =
  sub_Addresses :: "string list"
  sub_Ports :: "int list"

record endpoints =
  ep_Name :: string
  ep_Namespace :: string
  ep_Labels :: "string \<rightharpoonup> string"
  ep_ResourceVersion :: string
  ep_Subsets :: "endpointSubset list"

text \<open>
  The fields of \<^verbatim>\<open>controlPlaneEndpointManager\<close> that hold data. Its interface-typed fields
  (\<^verbatim>\<open>instances\<close>, \<^verbatim>\<open>deviceIPSrv\<close>, \<^verbatim>\<open>ipResSvr\<close>, \<^verbatim>\<open>httpClient\<close>, \<^verbatim>\<open>k8sclient\<close>) are the
  collaborators below. The struct of package \<^verbatim>\<open>packet\<close> has no \<^verbatim>\<open>nodeAPIServerPort\<close>; its
  functions neither read nor write that field.
\<close>

record controlPlaneEndpointManager =
  inProcess :: bool
  apiServerPort :: int
  nodeAPIServerPort :: int
  eipTag :: string
  projectID :: string

subsection \<open>Collaborators\<close>

text \<open>
  The cloud side and the HTTP client answer a request as a function of the request: within
  one reconciliation the reservation listing is read once, and no device or address is
  asked about twice unless the caller's node list repeats it. A Go call returning
  \<^verbatim>\<open>(value, err)\<close>, other than \<^verbatim>\<open>Client.Do\<close>, is a sum: \<open>Inl err\<close> when \<^verbatim>\<open>err != nil\<close>
  (the file does not read the value then), \<open>Inr value\<close> otherwise.
\<close>

record cloud =
  ipResSvr_List :: "string \<Rightarrow> error + ipAddressReservation list"
  http_NewRequest :: "string \<Rightarrow> error option"
  httpClient_Do :: "string \<Rightarrow> doResult"
  instances_NodeAddresses :: "string \<Rightarrow> error + nodeAddress list"
  instances_InstanceID :: "string \<Rightarrow> error + string"
  deviceIPSrv_Unassign :: "string \<Rightarrow> error option"
  deviceIPSrv_Assign :: "string \<Rightarrow> string \<Rightarrow> error option"

text \<open>
  The orchestrator client is read again after it was written (the service is fetched
  after its update), so it has a state \<open>'k\<close> of its own, which every write may change.
\<close>

record 'k k8sclient =
  Endpoints_Get :: "'k \<Rightarrow> string \<Rightarrow> string \<Rightarrow> error + endpoints"
  Endpoints_Update :: "'k \<Rightarrow> endpoints \<Rightarrow> error option \<times> 'k"
  Endpoints_Create :: "'k \<Rightarrow> endpoints \<Rightarrow> error option \<times> 'k"
  Services_Get :: "'k \<Rightarrow> string \<Rightarrow> string \<Rightarrow> error + service"
  Services_Update :: "'k \<Rightarrow> service \<Rightarrow> error option \<times> 'k"
  Services_Create :: "'k \<Rightarrow> service \<Rightarrow> error option \<times> 'k"
  Services_UpdateStatus :: "'k \<Rightarrow> service \<Rightarrow> error option \<times> 'k"

text \<open>The calls, as they appear in a trace. \<open>BodyClose u\<close> is \<^verbatim>\<open>resp.Body.Close()\<close> on the
  response to the request for \<open>u\<close>.\<close>

datatype event =
    CallList string
  | CallDo string
  | BodyClose string
  | CallNodeAddresses string
  | CallInstanceID string
  | CallUnassign string
  | CallAssign string string
  | GetEndpoints string string
  | UpdateEndpoints endpoints
  | CreateEndpoints endpoints
  | GetService string string
  | UpdateService service
  | CreateService service
  | UpdateStatus service

text \<open>The calls that change something outside the process.\<close>

fun mutation :: "event \<Rightarrow> bool" where
  "mutation (CallUnassign _) = True"
| "mutation (CallAssign _ _) = True"
| "mutation (UpdateEndpoints _) = True"
| "mutation (CreateEndpoints _) = True"
| "mutation (UpdateService _) = True"
| "mutation (CreateService _) = True"
| "mutation (UpdateStatus _) = True"
| "mutation _ = False"

subsection \<open>Constants and formatting\<close>

definition controlPlaneLabel :: string where
  "controlPlaneLabel = ''node-role.kubernetes.io/master''"

definition externalServiceName :: string where
  "externalServiceName = ''cloud-provider-equinix-metal-kubernetes-external''"

definition externalServiceNamespace :: string where
  "externalServiceNamespace = ''kube-system''"

definition metallbAnnotation :: string where
  "metallbAnnotation = ''metallb.universe.tf/address-pool''"

definition metallbDisabledtag :: string where
  "metallbDisabledtag = ''disabled-metallb-do-not-use-any-address-pool''"

text \<open>\<^verbatim>\<open>%d\<close> of \<^verbatim>\<open>fmt.Sprintf\<close>: the decimal digits, with a sign for a negative number.\<close>

fun showNat :: "nat \<Rightarrow> string" where
  "showNat n =
     (if n < 10 then [''0123456789'' ! n]
      else showNat (n div 10) @ [''0123456789'' ! (n mod 10)])"

declare showNat.simps [simp del]

definition showInt :: "int \<Rightarrow> string" where
  "showInt i = (if i < 0 then CHR ''-'' # showNat (nat (- i)) else showNat (nat i))"

text \<open>\<^verbatim>\<open>fmt.Sprintf("https://%s:%d/healthz", address, port)\<close>\<close>

definition healthzURL :: "string \<Rightarrow> int \<Rightarrow> string" where
  "healthzURL address port = ''https://'' @ address @ '':'' @ showInt port @ ''/healthz''"

text \<open>
  Modelled from the spec: \<^verbatim>\<open>ipReservationByAllTags\<close> is declared in another file of the
  package. The spec's resolver returns the first reservation of the listing whose tag set
  is a superset of the required tags, and not-found when there is none.
\<close>

definition ipReservationByAllTags ::
  "string list \<Rightarrow> ipAddressReservation list \<Rightarrow> ipAddressReservation option" where
  "ipReservationByAllTags tags ips = find (\<lambda>ip. set tags \<subseteq> set (res_Tags ip)) ips"

text \<open>
  Modelled from the spec: \<^verbatim>\<open>UpdateMode\<close> and its values are declared in another file of the
  package; the spec tells the mode that expects a full pass (\<^verbatim>\<open>ModeSync\<close>) from the modes
  that tolerate incremental input.
\<close>

datatype updateMode = ModeAdd | ModeRemove | ModeSync

subsection \<open>Package metal: reassign\<close>

text \<open>
  Lines 432-449, the branch taken for a node whose probe returned 200: look the device up,
  release the single prior assignment if there is one, assign. Each failure returns at once.
\<close>

definition assignTo :: "cloud \<Rightarrow> ipAddressReservation \<Rightarrow> string \<Rightarrow> error option \<times> event list" where
  "assignTo c ip name =
     (case instances_InstanceID c name of
        Inl err \<Rightarrow> (Some err, [CallInstanceID name])
      | Inr deviceID \<Rightarrow>
          (if length (res_Assignments ip) = 1 then
             (case deviceIPSrv_Unassign c (asg_ID (res_Assignments ip ! 0)) of
                Some err \<Rightarrow>
                  (Some err,
                   [CallInstanceID name, CallUnassign (asg_ID (res_Assignments ip ! 0))])
              | None \<Rightarrow>
                  (deviceIPSrv_Assign c deviceID (res_Address ip),
                   [CallInstanceID name, CallUnassign (asg_ID (res_Assignments ip ! 0)),
                    CallAssign deviceID (res_Address ip)]))
           else
             (deviceIPSrv_Assign c deviceID (res_Address ip),
              [CallInstanceID name, CallAssign deviceID (res_Address ip)])))"

text \<open>
  Lines 407-452, the loop over one node's addresses. \<open>Some r\<close>: the function returned \<open>r\<close>
  from inside the loop; \<open>None\<close>: the loop ran to its end. No branch closes a response body.
\<close>

fun probeAddresses ::
  "cloud \<Rightarrow> controlPlaneEndpointManager \<Rightarrow> ipAddressReservation \<Rightarrow> string \<Rightarrow> string \<Rightarrow>
   nodeAddress list \<Rightarrow> error option option \<times> event list" where
  "probeAddresses c m ip eipURL name [] = (None, [])"
| "probeAddresses c m ip eipURL name (a # as) =
     (if addr_Type a = ''Hostname'' then probeAddresses c m ip eipURL name as
      else
        (let healthCheckAddress = healthzURL (addr_Address a) (nodeAPIServerPort m) in
           (if healthCheckAddress = eipURL then probeAddresses c m ip eipURL name as
            else
              (case http_NewRequest c healthCheckAddress of
                 Some err \<Rightarrow> probeAddresses c m ip eipURL name as
               | None \<Rightarrow>
                   (case httpClient_Do c healthCheckAddress of
                      DoError err resp \<Rightarrow>
                        (case probeAddresses c m ip eipURL name as of
                           (r, tr) \<Rightarrow> (r, CallDo healthCheckAddress # tr))
                    | DoResponse resp \<Rightarrow>
                        (if StatusCode resp = 200 then
                           (case assignTo c ip name of
                              (r, tr) \<Rightarrow> (Some r, CallDo healthCheckAddress # tr))
                         else
                           (case probeAddresses c m ip eipURL name as of
                              (r, tr) \<Rightarrow> (r, CallDo healthCheckAddress # tr))))))))"

text \<open>Lines 399-454, the loop over the nodes and the error after it.\<close>

fun reassignNodes ::
  "cloud \<Rightarrow> controlPlaneEndpointManager \<Rightarrow> ipAddressReservation \<Rightarrow> string \<Rightarrow> node list \<Rightarrow>
   error option \<times> event list" where
  "reassignNodes c m ip eipURL [] = (Some ErrNoGoodCandidate, [])"
| "reassignNodes c m ip eipURL (n # ns) =
     (case instances_NodeAddresses c (node_Name n) of
        Inl err \<Rightarrow> (Some err, [CallNodeAddresses (node_Name n)])
      | Inr addresses \<Rightarrow>
          (case probeAddresses c m ip eipURL (node_Name n) addresses of
             (Some r, tr) \<Rightarrow> (r, CallNodeAddresses (node_Name n) # tr)
           | (None, tr) \<Rightarrow>
               (case reassignNodes c m ip eipURL ns of
                  (r, tr') \<Rightarrow> (r, CallNodeAddresses (node_Name n) # tr @ tr'))))"

definition reassign ::
  "cloud \<Rightarrow> controlPlaneEndpointManager \<Rightarrow> node list \<Rightarrow> ipAddressReservation \<Rightarrow> string \<Rightarrow>
   error option \<times> event list" where
  "reassign c m nodes ip eipURL =
     (if nodeAPIServerPort m = 0 then (Some ErrNodePortNotDetermined, [])
      else reassignNodes c m ip eipURL nodes)"

subsection \<open>Package metal: reconcileNodes\<close>

text \<open>Lines 378-384: the nodes that carry the control-plane label, in their order.\<close>

definition cpNodes :: "node list \<Rightarrow> node list" where
  "cpNodes nodes = filter (\<lambda>n. node_Labels n controlPlaneLabel \<noteq> None) nodes"

text \<open>
  Lines 368-372: the deferred close of the probe's body, registered when the request
  returned no error and the body is present; it runs when the function returns.
\<close>

definition deferredClose :: "string \<Rightarrow> doResult \<Rightarrow> event list" where
  "deferredClose url r =
     (case r of
        DoError err resp \<Rightarrow> []
      | DoResponse resp \<Rightarrow> if BodyPresent resp then [BodyClose url] else [])"

text \<open>Line 373: \<^verbatim>\<open>err != nil || resp.StatusCode != http.StatusOK\<close>.\<close>

definition unhealthy :: "doResult \<Rightarrow> bool" where
  "unhealthy r =
     (case r of DoError err resp \<Rightarrow> True | DoResponse resp \<Rightarrow> StatusCode resp \<noteq> 200)"

text \<open>Lines 344-390, what runs while the guard flag is set.\<close>

definition reconcileNodesGuarded ::
  "cloud \<Rightarrow> controlPlaneEndpointManager \<Rightarrow> node list \<Rightarrow> error option \<times> event list" where
  "reconcileNodesGuarded c m nodes =
     (if eipTag m = [] then (Some ErrLoadbalancerTagEmpty, [])
      else
        (case ipResSvr_List c (projectID m) of
           Inl err \<Rightarrow> (Some err, [CallList (projectID m)])
         | Inr ipList \<Rightarrow>
             (case ipReservationByAllTags [eipTag m] ipList of
                None \<Rightarrow> (None, [CallList (projectID m)])
              | Some controlPlaneEndpoint \<Rightarrow>
                  (if length (res_Assignments controlPlaneEndpoint) > 1
                   then (Some (ErrMoreThanOneNode (res_ID controlPlaneEndpoint)),
                         [CallList (projectID m)])
                   else
                     (let healthCheckURL =
                            healthzURL (res_Address controlPlaneEndpoint) (apiServerPort m)
                      in
                        (case http_NewRequest c healthCheckURL of
                           Some err \<Rightarrow> (Some err, [CallList (projectID m)])
                         | None \<Rightarrow>
                             (let resp = httpClient_Do c healthCheckURL in
                                (if unhealthy resp then
                                   (case reassign c m (cpNodes nodes) controlPlaneEndpoint
                                           healthCheckURL of
                                      (r, tr) \<Rightarrow>
                                        (r,
                                         [CallList (projectID m), CallDo healthCheckURL] @ tr
                                         @ deferredClose healthCheckURL resp))
                                 else
                                   (None,
                                    [CallList (projectID m), CallDo healthCheckURL]
                                    @ deferredClose healthCheckURL resp)))))))))"

text \<open>
  Lines 330-343: the guard. The flag is set after both early returns, and the deferred
  function clears it on every way out of what follows.
\<close>

definition reconcileNodes ::
  "cloud \<Rightarrow> controlPlaneEndpointManager \<Rightarrow> node list \<Rightarrow>
   outcome \<times> controlPlaneEndpointManager \<times> event list" where
  "reconcileNodes c m nodes =
     (if inProcess m then (Returned None, m, [])
      else if apiServerPort m = 0 then (Returned (Some ErrPortNotProvided), m, [])
      else
        (case reconcileNodesGuarded c (m\<lparr>inProcess := True\<rparr>) nodes of
           (r, tr) \<Rightarrow> (Returned r, m\<lparr>inProcess := True\<rparr>\<lparr>inProcess := False\<rparr>, tr)))"

subsection \<open>Package metal: reconcileServices\<close>

text \<open>
  Lines 513-518: the node-side port is taken from the first port of the upstream service
  on every call, the desired port only while it is still zero.
\<close>

definition trackPorts ::
  "controlPlaneEndpointManager \<Rightarrow> servicePort list \<Rightarrow> controlPlaneEndpointManager" where
  "trackPorts m existingPorts =
     (let m1 = m\<lparr>nodeAPIServerPort := IntVal (sp_TargetPort (existingPorts ! 0))\<rparr> in
        if apiServerPort m1 = 0 then m1\<lparr>apiServerPort := nodeAPIServerPort m1\<rparr> else m1)"

text \<open>
  Lines 520-561: the upstream endpoints are read, and their subsets (a deep copy of a
  value is the value) are written to the mirrored endpoints object, which is updated when
  reading it gave no error and created otherwise.
\<close>

definition mirrorEndpoints ::
  "'k k8sclient \<Rightarrow> 'k \<Rightarrow> service \<Rightarrow> error option \<times> 'k \<times> event list" where
  "mirrorEndpoints k8s k svc =
     (case Endpoints_Get k8s k (svc_Namespace svc) (svc_Name svc) of
        Inl err \<Rightarrow>
          (Some (ErrGetEndpoints (svc_Name svc) err), k,
           [GetEndpoints (svc_Namespace svc) (svc_Name svc)])
      | Inr ep \<Rightarrow>
          (case Endpoints_Get k8s k externalServiceNamespace externalServiceName of
             Inr myep \<Rightarrow>
               (case Endpoints_Update k8s k (myep\<lparr>ep_Subsets := ep_Subsets ep\<rparr>) of
                  (r, k') \<Rightarrow>
                    (map_option ErrUpdateMyEndpoints r, k',
                     [GetEndpoints (svc_Namespace svc) (svc_Name svc),
                      GetEndpoints externalServiceNamespace externalServiceName,
                      UpdateEndpoints (myep\<lparr>ep_Subsets := ep_Subsets ep\<rparr>)]))
           | Inl err \<Rightarrow>
               (case Endpoints_Create k8s k
                       \<lparr>ep_Name = externalServiceName,
                        ep_Namespace = externalServiceNamespace,
                        ep_Labels = Map.empty, ep_ResourceVersion = [],
                        ep_Subsets = ep_Subsets ep\<rparr> of
                  (r, k') \<Rightarrow>
                    (map_option ErrCreateMyEndpoints r, k',
                     [GetEndpoints (svc_Namespace svc) (svc_Name svc),
                      GetEndpoints externalServiceNamespace externalServiceName,
                      CreateEndpoints
                        \<lparr>ep_Name = externalServiceName,
                         ep_Namespace = externalServiceNamespace,
                         ep_Labels = Map.empty, ep_ResourceVersion = [],
                         ep_Subsets = ep_Subsets ep\<rparr>]))))"

text \<open>
  Lines 564-570: a copy of the upstream ports, the first of which listens on the desired
  port. The caller has checked that there is a first port.
\<close>

definition externalPorts :: "int \<Rightarrow> servicePort list \<Rightarrow> servicePort list" where
  "externalPorts port existingPorts = existingPorts[0 := (existingPorts ! 0)\<lparr>sp_Port := port\<rparr>]"

text \<open>Lines 572-585; the fields the literal leaves out have Go's zero values.\<close>

definition externalService :: "string \<Rightarrow> servicePort list \<Rightarrow> service" where
  "externalService eip ports =
     \<lparr>svc_Name = externalServiceName,
      svc_Namespace = externalServiceNamespace,
      svc_Labels = Map.empty,
      svc_Annotations = [metallbAnnotation \<mapsto> metallbDisabledtag],
      svc_ResourceVersion = [],
      svc_Spec =
        \<lparr>spec_Type = ''LoadBalancer'', spec_LoadBalancerIP = eip, spec_Ports = ports,
         spec_ExternalIPs = [], spec_ClusterIP = [], spec_Selector = Map.empty\<rparr>,
      svc_Status = []\<rparr>"

text \<open>Lines 593-594: what the update writes into the object it has just read.\<close>

definition overwriteOwned :: "service \<Rightarrow> service \<Rightarrow> service" where
  "overwriteOwned updatedService ext =
     updatedService\<lparr>svc_Spec :=
       (svc_Spec updatedService)
         \<lparr>spec_LoadBalancerIP := spec_LoadBalancerIP (svc_Spec ext),
          spec_Ports := spec_Ports (svc_Spec ext)\<rparr>\<rparr>"

text \<open>Lines 606-622: the service is read once more and its status published.\<close>

definition publishStatus ::
  "'k k8sclient \<Rightarrow> 'k \<Rightarrow> string \<Rightarrow> error option \<times> 'k \<times> event list" where
  "publishStatus k8s k eip =
     (case Services_Get k8s k externalServiceNamespace externalServiceName of
        Inl err \<Rightarrow>
          (Some (ErrGetServiceForStatus externalServiceName err), k,
           [GetService externalServiceNamespace externalServiceName])
      | Inr updatedService \<Rightarrow>
          (case Services_UpdateStatus k8s k (updatedService\<lparr>svc_Status := [eip]\<rparr>) of
             (r, k') \<Rightarrow>
               (map_option ErrUpdateServiceStatus r, k',
                [GetService externalServiceNamespace externalServiceName,
                 UpdateStatus (updatedService\<lparr>svc_Status := [eip]\<rparr>)])))"

text \<open>Lines 587-605, followed by the status update.\<close>

definition mirrorService ::
  "'k k8sclient \<Rightarrow> 'k \<Rightarrow> string \<Rightarrow> servicePort list \<Rightarrow> error option \<times> 'k \<times> event list" where
  "mirrorService k8s k eip ports =
     (case Services_Get k8s k externalServiceNamespace externalServiceName of
        Inr updatedService \<Rightarrow>
          (case Services_Update k8s k
                  (overwriteOwned updatedService (externalService eip ports)) of
             (Some err, k') \<Rightarrow>
               (Some (ErrUpdateService err), k',
                [GetService externalServiceNamespace externalServiceName,
                 UpdateService (overwriteOwned updatedService (externalService eip ports))])
           | (None, k') \<Rightarrow>
               (case publishStatus k8s k' eip of
                  (r, k'', tr) \<Rightarrow>
                    (r, k'',
                     [GetService externalServiceNamespace externalServiceName,
                      UpdateService (overwriteOwned updatedService (externalService eip ports))]
                     @ tr)))
      | Inl err \<Rightarrow>
          (case Services_Create k8s k (externalService eip ports) of
             (Some err, k') \<Rightarrow>
               (Some (ErrCreateService err), k',
                [GetService externalServiceNamespace externalServiceName,
                 CreateService (externalService eip ports)])
           | (None, k') \<Rightarrow>
               (case publishStatus k8s k' eip of
                  (r, k'', tr) \<Rightarrow>
                    (r, k'',
                     [GetService externalServiceNamespace externalServiceName,
                      CreateService (externalService eip ports)]
                     @ tr))))"

text \<open>Lines 507-622, the loop body for the service \<^verbatim>\<open>default/kubernetes\<close>.\<close>

definition mirrorKubernetes ::
  "'k k8sclient \<Rightarrow> controlPlaneEndpointManager \<Rightarrow> 'k \<Rightarrow> string \<Rightarrow> service \<Rightarrow>
   error option \<times> controlPlaneEndpointManager \<times> 'k \<times> event list" where
  "mirrorKubernetes k8s m k eip svc =
     (let existingPorts = spec_Ports (svc_Spec svc) in
        if length existingPorts < 1 then (Some ErrNoPortsDefined, m, k, [])
        else
          (let m' = trackPorts m existingPorts in
             (case mirrorEndpoints k8s k svc of
                (Some err, k', tr) \<Rightarrow> (Some err, m', k', tr)
              | (None, k', tr) \<Rightarrow>
                  (case mirrorService k8s k' eip
                          (externalPorts (apiServerPort m') existingPorts) of
                     (r, k'', tr') \<Rightarrow> (r, m', k'', tr @ tr')))))"

text \<open>Lines 501-628: the loop over the services and what follows it.\<close>

fun servicesLoop ::
  "'k k8sclient \<Rightarrow> controlPlaneEndpointManager \<Rightarrow> 'k \<Rightarrow> string \<Rightarrow> updateMode \<Rightarrow>
   service list \<Rightarrow> error option \<times> controlPlaneEndpointManager \<times> 'k \<times> event list" where
  "servicesLoop k8s m k eip mode [] =
     (if mode = ModeSync then (Some ErrServiceNotFound, m, k, []) else (None, m, k, []))"
| "servicesLoop k8s m k eip mode (svc # svcs) =
     (if svc_Namespace svc \<noteq> ''default'' \<or> svc_Name svc \<noteq> ''kubernetes''
      then servicesLoop k8s m k eip mode svcs
      else mirrorKubernetes k8s m k eip svc)"

definition reconcileServices ::
  "cloud \<Rightarrow> 'k k8sclient \<Rightarrow> controlPlaneEndpointManager \<Rightarrow> 'k \<Rightarrow> service list \<Rightarrow>
   updateMode \<Rightarrow> outcome \<times> controlPlaneEndpointManager \<times> 'k \<times> event list" where
  "reconcileServices c k8s m k svcs mode =
     (if eipTag m = [] then (Returned (Some ErrTagEmpty), m, k, [])
      else
        (case ipResSvr_List c (projectID m) of
           Inl err \<Rightarrow> (Returned (Some err), m, k, [CallList (projectID m)])
         | Inr ipList \<Rightarrow>
             (case ipReservationByAllTags [eipTag m] ipList of
                None \<Rightarrow> (Returned None, m, k, [CallList (projectID m)])
              | Some controlPlaneEndpoint \<Rightarrow>
                  (if length (res_Assignments controlPlaneEndpoint) > 1
                   then (Returned (Some (ErrMoreThanOneNode (res_ID controlPlaneEndpoint))),
                         m, k, [CallList (projectID m)])
                   else
                     (case servicesLoop k8s m k (res_Address controlPlaneEndpoint) mode svcs of
                        (r, m', k', tr) \<Rightarrow>
                          (Returned r, m', k', CallList (projectID m) # tr))))))"

subsection \<open>Package packet: reassign and reconcileNodes\<close>

text \<open>
  Lines 136-176. The earlier loop probes on the manager's single port and has no check
  against the elastic IP's own URL; the branch for a healthy node (lines 157-175) is the
  one of the later package.
\<close>

fun probeAddresses_packet ::
  "cloud \<Rightarrow> controlPlaneEndpointManager \<Rightarrow> ipAddressReservation \<Rightarrow> string \<Rightarrow>
   nodeAddress list \<Rightarrow> error option option \<times> event list" where
  "probeAddresses_packet c m ip name [] = (None, [])"
| "probeAddresses_packet c m ip name (a # as) =
     (if addr_Type a = ''Hostname'' then probeAddresses_packet c m ip name as
      else
        (let healthCheckAddress = healthzURL (addr_Address a) (apiServerPort m) in
           (case http_NewRequest c healthCheckAddress of
              Some err \<Rightarrow> probeAddresses_packet c m ip name as
            | None \<Rightarrow>
                (case httpClient_Do c healthCheckAddress of
                   DoError err resp \<Rightarrow>
                     (case probeAddresses_packet c m ip name as of
                        (r, tr) \<Rightarrow> (r, CallDo healthCheckAddress # tr))
                 | DoResponse resp \<Rightarrow>
                     (if StatusCode resp = 200 then
                        (case assignTo c ip name of
                           (r, tr) \<Rightarrow> (Some r, CallDo healthCheckAddress # tr))
                      else
                        (case probeAddresses_packet c m ip name as of
                           (r, tr) \<Rightarrow> (r, CallDo healthCheckAddress # tr)))))))"

text \<open>Lines 126-179.\<close>

fun reassign_packet ::
  "cloud \<Rightarrow> controlPlaneEndpointManager \<Rightarrow> node list \<Rightarrow> ipAddressReservation \<Rightarrow>
   error option \<times> event list" where
  "reassign_packet c m [] ip = (Some ErrNoGoodCandidate, [])"
| "reassign_packet c m (n # ns) ip =
     (case instances_NodeAddresses c (node_Name n) of
        Inl err \<Rightarrow> (Some err, [CallNodeAddresses (node_Name n)])
      | Inr addresses \<Rightarrow>
          (case probeAddresses_packet c m ip (node_Name n) addresses of
             (Some r, tr) \<Rightarrow> (r, CallNodeAddresses (node_Name n) # tr)
           | (None, tr) \<Rightarrow>
               (case reassign_packet c m ns ip of
                  (r, tr') \<Rightarrow> (r, CallNodeAddresses (node_Name n) # tr @ tr'))))"

text \<open>The pointer \<^verbatim>\<open>resp\<close> that \<^verbatim>\<open>Client.Do\<close> returned: \<open>None\<close> is \<^verbatim>\<open>nil\<close>.\<close>

definition responseOf :: "doResult \<Rightarrow> httpResponse option" where
  "responseOf r = (case r of DoError err resp \<Rightarrow> resp | DoResponse resp \<Rightarrow> Some resp)"

text \<open>
  Lines 122-123: \<^verbatim>\<open>defer resp.Body.Close()\<close> and \<^verbatim>\<open>return nil\<close>. The statement reads
  \<^verbatim>\<open>resp.Body\<close> whatever the request returned. Reading a field through a \<^verbatim>\<open>nil\<close> pointer
  panics, as does the method value of a \<^verbatim>\<open>nil\<close> interface; \<^verbatim>\<open>resp\<close> is \<^verbatim>\<open>nil\<close> after a
  transport error. After a stopped redirect the response is there, and its body is closed
  once more when the function returns.
\<close>

definition closeAndReturn_packet :: "string \<Rightarrow> doResult \<Rightarrow> outcome \<times> event list" where
  "closeAndReturn_packet url r =
     (case responseOf r of
        None \<Rightarrow> (Panicked, [])
      | Some resp \<Rightarrow>
          if BodyPresent resp then (Returned None, [BodyClose url]) else (Panicked, []))"

text \<open>
  Lines 81-123, what runs while the guard flag is set. \<^verbatim>\<open>ipReservationByTags\<close> is declared
  in another file of the package and is a parameter here.
\<close>

definition reconcileNodesGuarded_packet ::
  "(string list \<Rightarrow> ipAddressReservation list \<Rightarrow> ipAddressReservation option) \<Rightarrow>
   cloud \<Rightarrow> controlPlaneEndpointManager \<Rightarrow> node list \<Rightarrow> outcome \<times> event list" where
  "reconcileNodesGuarded_packet ipReservationByTags c m nodes =
     (if eipTag m = [] then (Returned (Some ErrTagEmpty), [])
      else
        (case ipResSvr_List c (projectID m) of
           Inl err \<Rightarrow> (Returned (Some err), [CallList (projectID m)])
         | Inr ipList \<Rightarrow>
             (case ipReservationByTags [eipTag m] ipList of
                None \<Rightarrow> (Returned None, [CallList (projectID m)])
              | Some controlPlaneEndpoint \<Rightarrow>
                  (if length (res_Assignments controlPlaneEndpoint) > 1
                   then (Returned (Some (ErrMoreThanOneNode (res_ID controlPlaneEndpoint))),
                         [CallList (projectID m)])
                   else
                     (let url = healthzURL (res_Address controlPlaneEndpoint) (apiServerPort m)
                      in
                        (case http_NewRequest c url of
                           Some err \<Rightarrow> (Returned (Some err), [CallList (projectID m)])
                         | None \<Rightarrow>
                             (let resp = httpClient_Do c url in
                                (if unhealthy resp then
                                   (case reassign_packet c m (cpNodes nodes)
                                           controlPlaneEndpoint of
                                      (Some err, tr) \<Rightarrow>
                                        (Returned (Some err),
                                         [CallList (projectID m), CallDo url] @ tr)
                                    | (None, tr) \<Rightarrow>
                                        (case closeAndReturn_packet url resp of
                                           (out, tr') \<Rightarrow>
                                             (out,
                                              [CallList (projectID m), CallDo url] @ tr @ tr')))
                                 else
                                   (case closeAndReturn_packet url resp of
                                      (out, tr') \<Rightarrow>
                                        (out,
                                         [CallList (projectID m), CallDo url] @ tr'))))))))))"

text \<open>
  Lines 71-80: the guard. The deferred function clears the flag on a return and on a
  panic alike.
\<close>

definition reconcileNodes_packet ::
  "(string list \<Rightarrow> ipAddressReservation list \<Rightarrow> ipAddressReservation option) \<Rightarrow>
   cloud \<Rightarrow> controlPlaneEndpointManager \<Rightarrow> node list \<Rightarrow>
   outcome \<times> controlPlaneEndpointManager \<times> event list" where
  "reconcileNodes_packet ipReservationByTags c m nodes =
     (if inProcess m then (Returned None, m, [])
      else
        (case reconcileNodesGuarded_packet ipReservationByTags c (m\<lparr>inProcess := True\<rparr>) nodes of
           (out, tr) \<Rightarrow> (out, m\<lparr>inProcess := True\<rparr>\<lparr>inProcess := False\<rparr>, tr)))"

text \<open>Lines 457-471 (and 181-195): the constructor leaves the flag and the node-side port
  at Go's zero values.\<close>

definition newControlPlaneEndpointManager ::
  "string \<Rightarrow> string \<Rightarrow> int \<Rightarrow> controlPlaneEndpointManager" where
  "newControlPlaneEndpointManager tag project port =
     \<lparr>inProcess = False, apiServerPort = port, nodeAPIServerPort = 0,
      eipTag = tag, projectID = project\<rparr>"

subsection \<open>What the claims speak of\<close>

text \<open>
  An address is probed when it is not of type Hostname and its health-check URL is not the
  elastic IP's own; its probe returns 200 when the request can be built and the client
  answers with that status.
\<close>

definition eligible :: "controlPlaneEndpointManager \<Rightarrow> string \<Rightarrow> nodeAddress \<Rightarrow> bool" where
  "eligible m eipURL a =
     (addr_Type a \<noteq> ''Hostname'' \<and> healthzURL (addr_Address a) (nodeAPIServerPort m) \<noteq> eipURL)"

definition returns200 :: "cloud \<Rightarrow> string \<Rightarrow> bool" where
  "returns200 c url =
     (http_NewRequest c url = None \<and>
      (case httpClient_Do c url of
         DoError err resp \<Rightarrow> False
       | DoResponse resp \<Rightarrow> StatusCode resp = 200))"

definition candidate :: "cloud \<Rightarrow> controlPlaneEndpointManager \<Rightarrow> string \<Rightarrow> nodeAddress \<Rightarrow> bool" where
  "candidate c m eipURL a =
     (eligible m eipURL a \<and> returns200 c (healthzURL (addr_Address a) (nodeAPIServerPort m)))"

text \<open>
  The probes of a list of addresses none of which is a candidate, in the order of the
  list: one request for every eligible address whose request can be built.
\<close>

definition probesOf ::
  "cloud \<Rightarrow> controlPlaneEndpointManager \<Rightarrow> string \<Rightarrow> nodeAddress list \<Rightarrow> event list" where
  "probesOf c m eipURL as =
     map (\<lambda>a. CallDo (healthzURL (addr_Address a) (nodeAPIServerPort m)))
       (filter (\<lambda>a. eligible m eipURL a \<and>
                  http_NewRequest c (healthzURL (addr_Address a) (nodeAPIServerPort m)) = None)
          as)"

text \<open>The visit of a list of nodes: each node's address lookup, then its probes.\<close>

definition addressesOf :: "cloud \<Rightarrow> node \<Rightarrow> nodeAddress list" where
  "addressesOf c n =
     (case instances_NodeAddresses c (node_Name n) of Inl err \<Rightarrow> [] | Inr as \<Rightarrow> as)"

definition lookupSucceeds :: "cloud \<Rightarrow> node \<Rightarrow> bool" where
  "lookupSucceeds c n =
     (case instances_NodeAddresses c (node_Name n) of Inl err \<Rightarrow> False | Inr as \<Rightarrow> True)"

definition visitsOf ::
  "cloud \<Rightarrow> controlPlaneEndpointManager \<Rightarrow> string \<Rightarrow> node list \<Rightarrow> event list" where
  "visitsOf c m eipURL ns =
     concat (map (\<lambda>n. CallNodeAddresses (node_Name n) # probesOf c m eipURL (addressesOf c n)) ns)"

text \<open>
  A node is passed over when its address lookup succeeds and none of its addresses is a
  candidate.
\<close>

definition passedOver :: "cloud \<Rightarrow> controlPlaneEndpointManager \<Rightarrow> string \<Rightarrow> node \<Rightarrow> bool" where
  "passedOver c m eipURL n =
     (lookupSucceeds c n \<and> list_all (\<lambda>a. \<not> candidate c m eipURL a) (addressesOf c n))"

text \<open>
  A run of \<open>reconcileNodes\<close> that found the elastic IP unhealthy: the listing, the probe,
  the calls \<open>tr\<close> of the reassignment and the deferred close, returning the reassignment's
  result \<open>r\<close> with the manager as it was.
\<close>

definition unhealthyRun ::
  "cloud \<Rightarrow> controlPlaneEndpointManager \<Rightarrow> string \<Rightarrow> error option \<Rightarrow> event list \<Rightarrow>
   outcome \<times> controlPlaneEndpointManager \<times> event list" where
  "unhealthyRun c m eipURL r tr =
     (Returned r, m,
      [CallList (projectID m), CallDo eipURL] @ tr @ deferredClose eipURL (httpClient_Do c eipURL))"

text \<open>The unassign call for the single prior assignment, when there is exactly one.\<close>

definition unassignOf :: "ipAddressReservation \<Rightarrow> event list" where
  "unassignOf ip =
     (if length (res_Assignments ip) = 1 then [CallUnassign (asg_ID (res_Assignments ip ! 0))]
      else [])"

definition isKubernetes :: "service \<Rightarrow> bool" where
  "isKubernetes svc = (svc_Namespace svc = ''default'' \<and> svc_Name svc = ''kubernetes'')"

text \<open>
  An update that leaves the stored object as it was except for the external address and
  the port list of its spec.
\<close>

definition onlyOwnedOverwritten :: "service \<Rightarrow> service \<Rightarrow> bool" where
  "onlyOwnedOverwritten stored written =
     (written = stored\<lparr>svc_Spec := (svc_Spec stored)
        \<lparr>spec_LoadBalancerIP := spec_LoadBalancerIP (svc_Spec written),
         spec_Ports := spec_Ports (svc_Spec written)\<rparr>\<rparr>)"

text \<open>The manager and the calls of a run.\<close>

definition managerOf :: "'a \<times> controlPlaneEndpointManager \<times> 'b \<Rightarrow> controlPlaneEndpointManager" where
  "managerOf run = fst (snd run)"

definition serviceCalls :: "'a \<times> 'b \<times> 'c \<times> event list \<Rightarrow> event list" where
  "serviceCalls run = snd (snd (snd run))"

subsection \<open>A cluster to run the model on\<close>

definition eip1 :: ipAddressReservation where
  "eip1 =
     \<lparr>res_ID = ''eip-1'', res_Address = ''192.0.2.10'', res_Tags = [''cluster-api''],
      res_Assignments = [\<lparr>asg_ID = ''asg-1''\<rparr>]\<rparr>"

definition cp1 :: node where
  "cp1 = \<lparr>node_Name = ''cp-1'', node_Labels = [controlPlaneLabel \<mapsto> []]\<rparr>"

definition cp2 :: node where
  "cp2 = \<lparr>node_Name = ''cp-2'', node_Labels = [controlPlaneLabel \<mapsto> []]\<rparr>"

definition worker1 :: node where
  "worker1 = \<lparr>node_Name = ''worker-1'', node_Labels = Map.empty\<rparr>"

definition manager1 :: controlPlaneEndpointManager where
  "manager1 =
     \<lparr>inProcess = False, apiServerPort = 6443, nodeAPIServerPort = 6443,
      eipTag = ''cluster-api'', projectID = ''project-1''\<rparr>"

text \<open>
  The elastic IP does not answer (it is bound to \<open>cp-1\<close>, whose API server answers 500 on
  its internal address); \<open>cp-2\<close> answers 200.
\<close>

definition cloud1 :: cloud where
  "cloud1 =
     \<lparr>ipResSvr_List = (\<lambda>project. Inr [eip1]),
      http_NewRequest = (\<lambda>url. None),
      httpClient_Do =
        (\<lambda>url.
           if url = ''https://10.0.0.2:6443/healthz''
           then DoResponse \<lparr>StatusCode = 200, BodyPresent = True\<rparr>
           else if url = ''https://10.0.0.1:6443/healthz''
           then DoResponse \<lparr>StatusCode = 500, BodyPresent = True\<rparr>
           else DoError (ErrExternal ''connection refused'') None),
      instances_NodeAddresses =
        (\<lambda>name.
           if name = ''cp-1''
           then Inr [\<lparr>addr_Type = ''Hostname'', addr_Address = ''cp-1''\<rparr>,
                     \<lparr>addr_Type = ''InternalIP'', addr_Address = ''10.0.0.1''\<rparr>,
                     \<lparr>addr_Type = ''ExternalIP'', addr_Address = ''192.0.2.10''\<rparr>]
           else if name = ''cp-2''
           then Inr [\<lparr>addr_Type = ''Hostname'', addr_Address = ''cp-2''\<rparr>,
                     \<lparr>addr_Type = ''InternalIP'', addr_Address = ''10.0.0.2''\<rparr>]
           else Inl (ErrExternal ''instance not found'')),
      instances_InstanceID = (\<lambda>name. Inr (''device-'' @ name)),
      deviceIPSrv_Unassign = (\<lambda>assignment. None),
      deviceIPSrv_Assign = (\<lambda>device address. None)\<rparr>"

text \<open>Variations of the cluster: a collaborator that fails, a port that is not known.\<close>

definition manager1_busy :: controlPlaneEndpointManager where
  "manager1_busy = manager1\<lparr>inProcess := True\<rparr>"

definition manager1_noNodePort :: controlPlaneEndpointManager where
  "manager1_noNodePort = manager1\<lparr>nodeAPIServerPort := 0\<rparr>"

definition manager1_noPorts :: controlPlaneEndpointManager where
  "manager1_noPorts = manager1\<lparr>apiServerPort := 0, nodeAPIServerPort := 0\<rparr>"

definition cloud1_noDevice :: cloud where
  "cloud1_noDevice =
     cloud1\<lparr>instances_InstanceID := (\<lambda>name. Inl (ErrExternal ''device not found''))\<rparr>"

definition cloud1_noAddresses :: cloud where
  "cloud1_noAddresses =
     cloud1\<lparr>instances_NodeAddresses := (\<lambda>name. Inl (ErrExternal ''instance not found''))\<rparr>"

definition cloud1_allDown :: cloud where
  "cloud1_allDown =
     cloud1\<lparr>httpClient_Do := (\<lambda>url. DoError (ErrExternal ''connection refused'') None)\<rparr>"

text \<open>The address lookup of \<open>cp-2\<close> fails; the unassign call is refused.\<close>

definition cloud1_cp2Gone :: cloud where
  "cloud1_cp2Gone =
     cloud1\<lparr>instances_NodeAddresses :=
       (\<lambda>name.
          if name = ''cp-2'' then Inl (ErrExternal ''instance not found'')
          else instances_NodeAddresses cloud1 name)\<rparr>"

definition cloud1_noUnassign :: cloud where
  "cloud1_noUnassign =
     cloud1\<lparr>deviceIPSrv_Unassign := (\<lambda>assignment. Some (ErrExternal ''unassign refused''))\<rparr>"

text \<open>
  The probe of the elastic IP is redirected until the client gives up: the error comes
  with the last response.
\<close>

definition cloud1_redirected :: cloud where
  "cloud1_redirected =
     cloud1\<lparr>httpClient_Do :=
       (\<lambda>url.
          if url = ''https://192.0.2.10:6443/healthz''
          then DoError (ErrExternal ''stopped after 10 redirects'')
                 (Some \<lparr>StatusCode = 302, BodyPresent = True\<rparr>)
          else httpClient_Do cloud1 url)\<rparr>"

text \<open>The elastic IP answers, with 503 and a body.\<close>

definition cloud1_eip503 :: cloud where
  "cloud1_eip503 =
     cloud1\<lparr>httpClient_Do :=
       (\<lambda>url.
          if url = ''https://192.0.2.10:6443/healthz''
          then DoResponse \<lparr>StatusCode = 503, BodyPresent = True\<rparr>
          else httpClient_Do cloud1 url)\<rparr>"

definition eip1_twice :: ipAddressReservation where
  "eip1_twice = eip1\<lparr>res_Assignments := [\<lparr>asg_ID = ''asg-1''\<rparr>, \<lparr>asg_ID = ''asg-2''\<rparr>]\<rparr>"

definition cloud1_twice :: cloud where
  "cloud1_twice = cloud1\<lparr>ipResSvr_List := (\<lambda>project. Inr [eip1_twice])\<rparr>"

definition cloud1_otherTag :: cloud where
  "cloud1_otherTag =
     cloud1\<lparr>ipResSvr_List := (\<lambda>project. Inr [eip1\<lparr>res_Tags := [''another-cluster'']\<rparr>])\<rparr>"

text \<open>
  An orchestrator client over a store held in memory: an object is read under its
  namespace and name, updated only when it is there, created only when it is not, and a
  status update writes the status alone.
\<close>

record store =
  st_Endpoints :: "string \<times> string \<rightharpoonup> endpoints"
  st_Services :: "string \<times> string \<rightharpoonup> service"

definition memClient :: "store k8sclient" where
  "memClient =
     \<lparr>Endpoints_Get =
        (\<lambda>k namespace name.
           case st_Endpoints k (namespace, name) of
             None \<Rightarrow> Inl (ErrExternal ''not found'')
           | Some ep \<Rightarrow> Inr ep),
      Endpoints_Update =
        (\<lambda>k ep.
           case st_Endpoints k (ep_Namespace ep, ep_Name ep) of
             None \<Rightarrow> (Some (ErrExternal ''not found''), k)
           | Some old \<Rightarrow>
               (None, k\<lparr>st_Endpoints := (st_Endpoints k)((ep_Namespace ep, ep_Name ep) \<mapsto> ep)\<rparr>)),
      Endpoints_Create =
        (\<lambda>k ep.
           case st_Endpoints k (ep_Namespace ep, ep_Name ep) of
             Some old \<Rightarrow> (Some (ErrExternal ''already exists''), k)
           | None \<Rightarrow>
               (None, k\<lparr>st_Endpoints := (st_Endpoints k)((ep_Namespace ep, ep_Name ep) \<mapsto> ep)\<rparr>)),
      Services_Get =
        (\<lambda>k namespace name.
           case st_Services k (namespace, name) of
             None \<Rightarrow> Inl (ErrExternal ''not found'')
           | Some svc \<Rightarrow> Inr svc),
      Services_Update =
        (\<lambda>k svc.
           case st_Services k (svc_Namespace svc, svc_Name svc) of
             None \<Rightarrow> (Some (ErrExternal ''not found''), k)
           | Some old \<Rightarrow>
               (None,
                k\<lparr>st_Services := (st_Services k)((svc_Namespace svc, svc_Name svc) \<mapsto> svc)\<rparr>)),
      Services_Create =
        (\<lambda>k svc.
           case st_Services k (svc_Namespace svc, svc_Name svc) of
             Some old \<Rightarrow> (Some (ErrExternal ''already exists''), k)
           | None \<Rightarrow>
               (None,
                k\<lparr>st_Services := (st_Services k)((svc_Namespace svc, svc_Name svc) \<mapsto> svc)\<rparr>)),
      Services_UpdateStatus =
        (\<lambda>k svc.
           case st_Services k (svc_Namespace svc, svc_Name svc) of
             None \<Rightarrow> (Some (ErrExternal ''not found''), k)
           | Some old \<Rightarrow>
               (None,
                k\<lparr>st_Services := (st_Services k)((svc_Namespace svc, svc_Name svc) \<mapsto>
                     old\<lparr>svc_Status := svc_Status svc\<rparr>)\<rparr>))\<rparr>"

text \<open>The upstream service and its endpoints.\<close>

definition https6443 :: servicePort where
  "https6443 =
     \<lparr>sp_Name = ''https'', sp_Protocol = ''TCP'', sp_Port = 443,
      sp_TargetPort = \<lparr>IntVal = 6443, StrVal = []\<rparr>, sp_NodePort = 0\<rparr>"

definition kubernetes1 :: service where
  "kubernetes1 =
     \<lparr>svc_Name = ''kubernetes'', svc_Namespace = ''default'',
      svc_Labels = [''component'' \<mapsto> ''apiserver''], svc_Annotations = Map.empty,
      svc_ResourceVersion = ''7'',
      svc_Spec =
        \<lparr>spec_Type = ''ClusterIP'', spec_LoadBalancerIP = [], spec_Ports = [https6443],
         spec_ExternalIPs = [], spec_ClusterIP = ''10.96.0.1'', spec_Selector = Map.empty\<rparr>,
      svc_Status = []\<rparr>"

definition dns1 :: service where
  "dns1 = kubernetes1\<lparr>svc_Name := ''kube-dns'', svc_Namespace := ''kube-system''\<rparr>"

definition endpoints1 :: endpoints where
  "endpoints1 =
     \<lparr>ep_Name = ''kubernetes'', ep_Namespace = ''default'', ep_Labels = Map.empty,
      ep_ResourceVersion = ''9'',
      ep_Subsets = [\<lparr>sub_Addresses = [''10.0.0.1'', ''10.0.0.2''], sub_Ports = [6443]\<rparr>]\<rparr>"

text \<open>
  A mirrored service stored earlier, for another address, and labelled and annotated
  since by someone else.
\<close>

definition mirrored1 :: service where
  "mirrored1 =
     \<lparr>svc_Name = externalServiceName, svc_Namespace = externalServiceNamespace,
      svc_Labels = [''team'' \<mapsto> ''infra''],
      svc_Annotations = [metallbAnnotation \<mapsto> metallbDisabledtag, ''note'' \<mapsto> ''keep''],
      svc_ResourceVersion = ''41'',
      svc_Spec =
        \<lparr>spec_Type = ''LoadBalancer'', spec_LoadBalancerIP = ''192.0.2.99'', spec_Ports = [],
         spec_ExternalIPs = [], spec_ClusterIP = ''10.96.0.77'', spec_Selector = Map.empty\<rparr>,
      svc_Status = []\<rparr>"

definition store1 :: store where
  "store1 =
     \<lparr>st_Endpoints = [(''default'', ''kubernetes'') \<mapsto> endpoints1],
      st_Services = [(externalServiceNamespace, externalServiceName) \<mapsto> mirrored1]\<rparr>"

text \<open>What the update of \<open>mirrored1\<close> for the elastic IP writes.\<close>

definition written1 :: service where
  "written1 =
     mirrored1\<lparr>svc_Spec := (svc_Spec mirrored1)
       \<lparr>spec_LoadBalancerIP := ''192.0.2.10'',
        spec_Ports := [https6443\<lparr>sp_Port := 6443\<rparr>]\<rparr>\<rparr>"

definition manager1_port8443 :: controlPlaneEndpointManager where
  "manager1_port8443 = manager1\<lparr>apiServerPort := 8443\<rparr>"

section \<open>Properties\<close>

subsection \<open>Evaluation\<close>

lemmas nodes_defs =
  reconcileNodes_def reconcileNodesGuarded_def ipReservationByAllTags_def healthzURL_def
  showInt_def showNat.simps unhealthy_def cpNodes_def controlPlaneLabel_def reassign_def
  assignTo_def deferredClose_def Let_def

lemmas cluster_defs = manager1_def cloud1_def eip1_def worker1_def cp1_def cp2_def

lemmas services_defs =
  reconcileServices_def mirrorKubernetes_def mirrorEndpoints_def mirrorService_def
  publishStatus_def trackPorts_def externalPorts_def externalService_def overwriteOwned_def
  ipReservationByAllTags_def externalServiceName_def externalServiceNamespace_def
  metallbAnnotation_def metallbDisabledtag_def Let_def

lemmas orchestrator_defs =
  memClient_def store1_def mirrored1_def kubernetes1_def dns1_def endpoints1_def https6443_def

lemmas trace_defs =
  unhealthyRun_def visitsOf_def probesOf_def addressesOf_def unassignOf_def deferredClose_def
  eligible_def healthzURL_def showInt_def showNat.simps

lemmas variant_defs =
  cloud1_noDevice_def cloud1_cp2Gone_def cloud1_noUnassign_def manager1_noNodePort_def

subsection \<open>The loops of reassign\<close>

lemma probeAddresses_no_candidate:
  "\<forall>a \<in> set as. \<not> candidate c m eipURL a \<Longrightarrow>
   probeAddresses c m ip eipURL name as = (None, probesOf c m eipURL as)"
proof (induction as)
  case Nil
  show ?case by (simp add: probesOf_def)
next
  case (Cons a as)
  from Cons.prems have rest: "\<forall>a \<in> set as. \<not> candidate c m eipURL a" by simp
  from Cons.prems have here: "\<not> candidate c m eipURL a" by simp
  have ih: "probeAddresses c m ip eipURL name as = (None, probesOf c m eipURL as)"
    using Cons.IH rest by blast
  show ?case
    using here ih
    by (auto simp: candidate_def eligible_def returns200_def probesOf_def Let_def
             split: option.splits sum.splits doResult.splits)
qed

lemma probeAddresses_first_candidate:
  assumes "\<forall>a' \<in> set as1. \<not> candidate c m eipURL a'" and "candidate c m eipURL a"
  shows "probeAddresses c m ip eipURL name (as1 @ a # as2) =
           (Some (fst (assignTo c ip name)),
            probesOf c m eipURL as1
            @ CallDo (healthzURL (addr_Address a) (nodeAPIServerPort m))
            # snd (assignTo c ip name))"
  using assms
proof (induction as1)
  case Nil
  then show ?case
    by (auto simp: candidate_def eligible_def returns200_def probesOf_def Let_def
             split: option.splits sum.splits doResult.splits prod.splits)
next
  case (Cons b as1)
  from Cons.prems have here: "\<not> candidate c m eipURL b" by simp
  have ih: "probeAddresses c m ip eipURL name (as1 @ a # as2) =
           (Some (fst (assignTo c ip name)),
            probesOf c m eipURL as1
            @ CallDo (healthzURL (addr_Address a) (nodeAPIServerPort m))
            # snd (assignTo c ip name))"
    using Cons by simp
  show ?case
    using here ih
    by (auto simp: candidate_def eligible_def returns200_def probesOf_def Let_def
             split: option.splits sum.splits doResult.splits)
qed

lemma assignTo_succeeds:
  assumes "instances_InstanceID c name = Inr deviceID"
    and "length (res_Assignments ip) = 1 \<Longrightarrow>
         deviceIPSrv_Unassign c (asg_ID (res_Assignments ip ! 0)) = None"
  shows "assignTo c ip name =
           (deviceIPSrv_Assign c deviceID (res_Address ip),
            CallInstanceID name # unassignOf ip @ [CallAssign deviceID (res_Address ip)])"
  using assms by (simp add: assignTo_def unassignOf_def)

lemma visitsOf_Nil: "visitsOf c m eipURL [] = []"
  by (simp add: visitsOf_def)

lemma visitsOf_Cons:
  "visitsOf c m eipURL (n # ns) =
     CallNodeAddresses (node_Name n) # probesOf c m eipURL (addressesOf c n) @ visitsOf c m eipURL ns"
  by (simp add: visitsOf_def)

lemma reassignNodes_no_candidate:
  assumes "\<forall>n \<in> set ns. lookupSucceeds c n"
    and "\<forall>n \<in> set ns. \<forall>a \<in> set (addressesOf c n). \<not> candidate c m eipURL a"
  shows "reassignNodes c m ip eipURL ns = (Some ErrNoGoodCandidate, visitsOf c m eipURL ns)"
  using assms
proof (induction ns)
  case Nil
  show ?case by (simp add: visitsOf_Nil)
next
  case (Cons n ns)
  from Cons.prems obtain as where as: "instances_NodeAddresses c (node_Name n) = Inr as"
    by (auto simp: lookupSucceeds_def split: sum.splits)
  then have ao: "addressesOf c n = as" by (simp add: addressesOf_def)
  with Cons.prems have "\<forall>a \<in> set as. \<not> candidate c m eipURL a" by simp
  then have inner: "probeAddresses c m ip eipURL (node_Name n) as = (None, probesOf c m eipURL as)"
    by (rule probeAddresses_no_candidate)
  have ih: "reassignNodes c m ip eipURL ns = (Some ErrNoGoodCandidate, visitsOf c m eipURL ns)"
    using Cons by simp
  show ?case by (simp add: as ao inner ih visitsOf_Cons)
qed

lemma reassignNodes_first_candidate:
  assumes "\<forall>n' \<in> set pre. lookupSucceeds c n'"
    and "\<forall>n' \<in> set pre. \<forall>a' \<in> set (addressesOf c n'). \<not> candidate c m eipURL a'"
    and "instances_NodeAddresses c (node_Name n) = Inr (as1 @ a # as2)"
    and "\<forall>a' \<in> set as1. \<not> candidate c m eipURL a'"
    and "candidate c m eipURL a"
  shows "reassignNodes c m ip eipURL (pre @ n # post) =
           (fst (assignTo c ip (node_Name n)),
            visitsOf c m eipURL pre
            @ CallNodeAddresses (node_Name n)
            # probesOf c m eipURL as1
            @ CallDo (healthzURL (addr_Address a) (nodeAPIServerPort m))
            # snd (assignTo c ip (node_Name n)))"
  using assms(1,2)
proof (induction pre)
  case Nil
  show ?case
    using probeAddresses_first_candidate [OF assms(4,5), of ip "node_Name n" as2]
    by (simp add: assms(3) visitsOf_Nil)
next
  case (Cons p pre)
  from Cons.prems obtain as where as: "instances_NodeAddresses c (node_Name p) = Inr as"
    by (auto simp: lookupSucceeds_def split: sum.splits)
  then have ao: "addressesOf c p = as" by (simp add: addressesOf_def)
  with Cons.prems have "\<forall>a \<in> set as. \<not> candidate c m eipURL a" by simp
  then have inner: "probeAddresses c m ip eipURL (node_Name p) as = (None, probesOf c m eipURL as)"
    by (rule probeAddresses_no_candidate)
  have ih: "reassignNodes c m ip eipURL (pre @ n # post) =
           (fst (assignTo c ip (node_Name n)),
            visitsOf c m eipURL pre
            @ CallNodeAddresses (node_Name n)
            # probesOf c m eipURL as1
            @ CallDo (healthzURL (addr_Address a) (nodeAPIServerPort m))
            # snd (assignTo c ip (node_Name n)))"
    using Cons by simp
  show ?case by (simp add: as ao inner ih visitsOf_Cons)
qed

lemma probesOf_no_mutation: "e \<in> set (probesOf c m eipURL as) \<Longrightarrow> \<not> mutation e"
  by (auto simp: probesOf_def)

lemma reassignNodes_no_candidate_no_mutation:
  assumes "\<forall>n \<in> set ns. \<forall>a \<in> set (addressesOf c n). \<not> candidate c m eipURL a"
  shows "\<forall>e \<in> set (snd (reassignNodes c m ip eipURL ns)). \<not> mutation e"
  using assms
proof (induction ns)
  case Nil
  show ?case by simp
next
  case (Cons n ns)
  have ih: "\<forall>e \<in> set (snd (reassignNodes c m ip eipURL ns)). \<not> mutation e"
    using Cons by simp
  show ?case
  proof (cases "instances_NodeAddresses c (node_Name n)")
    case (Inl err)
    then show ?thesis by simp
  next
    case (Inr as)
    then have "addressesOf c n = as" by (simp add: addressesOf_def)
    with Cons.prems have "\<forall>a \<in> set as. \<not> candidate c m eipURL a" by simp
    then have inner: "probeAddresses c m ip eipURL (node_Name n) as = (None, probesOf c m eipURL as)"
      by (rule probeAddresses_no_candidate)
    show ?thesis
      using ih by (auto simp: Inr inner split: prod.splits dest: probesOf_no_mutation)
  qed
qed

lemma probeAddresses_never_closes:
  "BodyClose u \<notin> set (snd (probeAddresses c m ip eipURL name as))"
  by (induction as) (auto simp: Let_def assignTo_def split: option.splits sum.splits doResult.splits prod.splits)

lemma reassignNodes_never_closes:
  "BodyClose u \<notin> set (snd (reassignNodes c m ip eipURL nodes))"
proof (induction nodes)
  case Nil
  show ?case by simp
next
  case (Cons n ns)
  show ?case
  proof (cases "instances_NodeAddresses c (node_Name n)")
    case (Inl err)
    then show ?thesis by simp
  next
    case (Inr as)
    obtain r tr where inner: "probeAddresses c m ip eipURL (node_Name n) as = (r, tr)"
      by (cases "probeAddresses c m ip eipURL (node_Name n) as")
    have tr: "BodyClose u \<notin> set tr"
      using probeAddresses_never_closes [of u c m ip eipURL "node_Name n" as] inner by simp
    show ?thesis
      using Cons tr by (cases r) (auto simp: Inr inner split: prod.splits)
  qed
qed

lemma reassign_never_closes: "BodyClose u \<notin> set (snd (reassign c m nodes ip eipURL))"
  by (simp add: reassign_def reassignNodes_never_closes)

lemma passedOver_unfold:
  "(\<forall>n \<in> set ns. passedOver c m eipURL n) \<longleftrightarrow>
   (\<forall>n \<in> set ns. lookupSucceeds c n) \<and>
   (\<forall>n \<in> set ns. \<forall>a \<in> set (addressesOf c n). \<not> candidate c m eipURL a)"
  by (auto simp: passedOver_def list_all_iff)

lemma reassignNodes_lookup_fails:
  assumes "\<forall>n' \<in> set pre. passedOver c m eipURL n'"
    and "instances_NodeAddresses c (node_Name n) = Inl err"
  shows "reassignNodes c m ip eipURL (pre @ n # post) =
           (Some err, visitsOf c m eipURL pre @ [CallNodeAddresses (node_Name n)])"
  using assms(1)
proof (induction pre)
  case Nil
  show ?case by (simp add: assms(2) visitsOf_Nil)
next
  case (Cons p pre)
  from Cons.prems have p: "passedOver c m eipURL p" by simp
  then obtain as where as: "instances_NodeAddresses c (node_Name p) = Inr as"
    by (auto simp: passedOver_def lookupSucceeds_def split: sum.splits)
  then have ao: "addressesOf c p = as" by (simp add: addressesOf_def)
  with p have "\<forall>a \<in> set as. \<not> candidate c m eipURL a"
    by (simp add: passedOver_def list_all_iff)
  then have inner: "probeAddresses c m ip eipURL (node_Name p) as = (None, probesOf c m eipURL as)"
    by (rule probeAddresses_no_candidate)
  have ih: "reassignNodes c m ip eipURL (pre @ n # post) =
           (Some err, visitsOf c m eipURL pre @ [CallNodeAddresses (node_Name n)])"
    using Cons by simp
  show ?case by (simp add: as ao inner ih visitsOf_Cons)
qed

lemma assignTo_no_device:
  "instances_InstanceID c name = Inl err \<Longrightarrow>
   assignTo c ip name = (Some err, [CallInstanceID name])"
  by (simp add: assignTo_def)

lemma assignTo_unassign_fails:
  "instances_InstanceID c name = Inr deviceID \<Longrightarrow> length (res_Assignments ip) = 1 \<Longrightarrow>
   deviceIPSrv_Unassign c (asg_ID (res_Assignments ip ! 0)) = Some err \<Longrightarrow>
   assignTo c ip name =
     (Some err, [CallInstanceID name, CallUnassign (asg_ID (res_Assignments ip ! 0))])"
  by (simp add: assignTo_def)

lemma reassign_stops_at_candidate:
  assumes port: "nodeAPIServerPort m \<noteq> 0"
    and pre: "\<forall>n' \<in> set pre. passedOver c m eipURL n'"
    and addresses: "instances_NodeAddresses c (node_Name n) = Inr (as1 @ a # as2)"
    and as1: "\<forall>a' \<in> set as1. \<not> candidate c m eipURL a'"
    and cand: "candidate c m eipURL a"
    and final: "assignTo c ip (node_Name n) = (r, tr)"
  shows "reassign c m (pre @ n # post) ip eipURL =
           (r, visitsOf c m eipURL pre @ [CallNodeAddresses (node_Name n)]
               @ probesOf c m eipURL as1
               @ [CallDo (healthzURL (addr_Address a) (nodeAPIServerPort m))] @ tr)"
proof -
  from pre have "\<forall>n' \<in> set pre. lookupSucceeds c n'"
    and "\<forall>n' \<in> set pre. \<forall>a' \<in> set (addressesOf c n'). \<not> candidate c m eipURL a'"
    by (simp_all add: passedOver_unfold)
  from reassignNodes_first_candidate [OF this addresses as1 cand, of ip post]
  show ?thesis
    using port by (simp add: reassign_def final)
qed

lemma reassignNodes_first_lookup_fails:
  assumes nocand: "\<forall>n' \<in> set pre. \<forall>a \<in> set (addressesOf c n'). \<not> candidate c m eipURL a"
    and lookups: "\<forall>n' \<in> set pre. lookupSucceeds c n'"
    and fails: "instances_NodeAddresses c (node_Name n) = Inl err"
  shows "reassignNodes c m ip eipURL (pre @ n # post) =
           (Some err, visitsOf c m eipURL pre @ [CallNodeAddresses (node_Name n)])"
proof -
  have "\<forall>n' \<in> set pre. passedOver c m eipURL n'"
    using nocand lookups by (simp add: passedOver_unfold)
  then show ?thesis
    using fails by (rule reassignNodes_lookup_fails)
qed

text \<open>The guard flag plays no part in the loops.\<close>

lemma probeAddresses_flag:
  "probeAddresses c (m\<lparr>inProcess := b\<rparr>) ip eipURL name as = probeAddresses c m ip eipURL name as"
  by (induction as) (auto simp: Let_def split: option.splits doResult.splits)

lemma reassignNodes_flag:
  "reassignNodes c (m\<lparr>inProcess := b\<rparr>) ip eipURL ns = reassignNodes c m ip eipURL ns"
  by (induction ns) (auto simp: probeAddresses_flag split: sum.splits prod.splits option.splits)

lemma reassign_flag:
  "reassign c (m\<lparr>inProcess := b\<rparr>) ns ip eipURL = reassign c m ns ip eipURL"
  by (simp add: reassign_def reassignNodes_flag)

lemma reconcileNodes_unhealthy:
  assumes guard: "\<not> inProcess m" "apiServerPort m \<noteq> 0" "eipTag m \<noteq> []"
    and listing: "ipResSvr_List c (projectID m) = Inr ipList"
    and resolved: "ipReservationByAllTags [eipTag m] ipList = Some ip"
    and single: "length (res_Assignments ip) \<le> 1"
    and url: "eipURL = healthzURL (res_Address ip) (apiServerPort m)"
    and request: "http_NewRequest c eipURL = None"
    and probe: "unhealthy (httpClient_Do c eipURL)"
    and re: "reassign c m (cpNodes nodes) ip eipURL = (r, tr)"
  shows "reconcileNodes c m nodes = unhealthyRun c m eipURL r tr"
proof -
  have "reconcileNodesGuarded c (m\<lparr>inProcess := True\<rparr>) nodes =
          (r, [CallList (projectID m), CallDo eipURL] @ tr
              @ deferredClose eipURL (httpClient_Do c eipURL))"
    using guard(3) listing resolved single request probe re
    by (simp add: reconcileNodesGuarded_def Let_def url [symmetric] reassign_flag)
  then show ?thesis
    using guard(1,2) by (simp add: reconcileNodes_def unhealthyRun_def)
qed

subsection \<open>The single-flight guard\<close>

text \<open>A manager starts with the flag clear.\<close>

lemma new_manager_guard_clear:
  "\<not> inProcess (newControlPlaneEndpointManager tag project port)"
  by (simp add: newControlPlaneEndpointManager_def)

text \<open>
  C6. Invoked while the guard flag is set, \<open>reconcileNodes\<close> returns \<^verbatim>\<open>nil\<close> at once: it
  issues no call (no probe, no cloud or orchestrator call) and leaves the manager as it
  was. This holds for the function of either package, whatever the node list.
\<close>

theorem reconcileNodes_skips_while_in_process:
  assumes "inProcess m"
  shows "reconcileNodes c m nodes = (Returned None, m, []) \<and>
         reconcileNodes_packet ipReservationByTags c m nodes = (Returned None, m, [])"
  using assms by (simp add: reconcileNodes_def reconcileNodes_packet_def)

theorem reconcileNodes_skips_while_in_process_witness:
  "reconcileNodes cloud1 manager1_busy [worker1, cp1, cp2] = (Returned None, manager1_busy, []) \<and>
   reconcileNodes_packet ipReservationByAllTags cloud1 manager1_busy [worker1, cp1, cp2] =
     (Returned None, manager1_busy, [])"
proof -
  have busy: "inProcess manager1_busy"
    by (simp add: manager1_busy_def)
  show ?thesis
    by (rule reconcileNodes_skips_while_in_process [OF busy])
qed

text \<open>
  C10. An invocation of \<open>reconcileNodes\<close> that starts with the guard flag clear ends with
  the flag clear, whatever it returns (\<^verbatim>\<open>nil\<close>, a configuration error, a lookup error, a
  reassignment error) and, in the earlier package, also when it panics: the flag is set
  after the early returns and cleared by the deferred function. So the next invocation
  finds the flag clear and is not skipped.
\<close>

theorem reconcileNodes_leaves_guard_clear:
  assumes "\<not> inProcess m"
  shows "\<not> inProcess (managerOf (reconcileNodes c m nodes)) \<and>
         \<not> inProcess (managerOf (reconcileNodes_packet ipReservationByTags c m nodes))"
  using assms
  by (simp add: reconcileNodes_def reconcileNodes_packet_def managerOf_def split: prod.splits)

theorem reconcileNodes_leaves_guard_clear_witness:
  "\<not> inProcess (managerOf (reconcileNodes cloud1 manager1 [worker1, cp1, cp2])) \<and>
   \<not> inProcess (managerOf (reconcileNodes_packet ipReservationByAllTags cloud1 manager1
                              [worker1, cp1, cp2]))"
proof -
  have idle: "\<not> inProcess manager1"
    by (simp add: manager1_def)
  show ?thesis
    by (rule reconcileNodes_leaves_guard_clear [OF idle])
qed

subsection \<open>Reservations that are not reconciled\<close>

text \<open>
  C4. When the reservation resolved from the listing has two or more assignments,
  \<open>reconcileServices\<close> returns the error that names the reservation and has issued the
  listing call and nothing else: no probe, no unassign or assign call, no orchestrator
  call; the manager and the orchestrator state are unchanged. So does \<open>reconcileNodes\<close>
  whenever it gets as far as the listing (the flag clear, the port known).
\<close>

theorem more_than_one_assignment_no_mutation:
  assumes tag: "eipTag m \<noteq> []"
    and listing: "ipResSvr_List c (projectID m) = Inr ipList"
    and resolved: "ipReservationByAllTags [eipTag m] ipList = Some ip"
    and many: "2 \<le> length (res_Assignments ip)"
  shows "reconcileServices c k8s m k svcs mode =
           (Returned (Some (ErrMoreThanOneNode (res_ID ip))), m, k, [CallList (projectID m)]) \<and>
         (\<not> inProcess m \<and> apiServerPort m \<noteq> 0 \<longrightarrow>
            reconcileNodes c m nodes =
              (Returned (Some (ErrMoreThanOneNode (res_ID ip))), m, [CallList (projectID m)]))"
proof (intro conjI impI)
  show "reconcileServices c k8s m k svcs mode =
           (Returned (Some (ErrMoreThanOneNode (res_ID ip))), m, k, [CallList (projectID m)])"
    using tag listing resolved many by (simp add: reconcileServices_def)
next
  assume g: "\<not> inProcess m \<and> apiServerPort m \<noteq> 0"
  have "reconcileNodesGuarded c (m\<lparr>inProcess := True\<rparr>) nodes =
          (Some (ErrMoreThanOneNode (res_ID ip)), [CallList (projectID m)])"
    using tag listing resolved many by (simp add: reconcileNodesGuarded_def)
  with g show "reconcileNodes c m nodes =
              (Returned (Some (ErrMoreThanOneNode (res_ID ip))), m, [CallList (projectID m)])"
    by (simp add: reconcileNodes_def)
qed

theorem more_than_one_assignment_no_mutation_witness:
  "reconcileServices cloud1_twice memClient manager1 store1 [dns1, kubernetes1] ModeSync =
     (Returned (Some (ErrMoreThanOneNode ''eip-1'')), manager1, store1, [CallList ''project-1'']) \<and>
   reconcileNodes cloud1_twice manager1 [worker1, cp1, cp2] =
     (Returned (Some (ErrMoreThanOneNode ''eip-1'')), manager1, [CallList ''project-1''])"
proof -
  have tag: "eipTag manager1 \<noteq> []"
    by (simp add: manager1_def)
  have listing: "ipResSvr_List cloud1_twice (projectID manager1) = Inr [eip1_twice]"
    by (simp add: cloud1_twice_def cloud1_def)
  have resolved: "ipReservationByAllTags [eipTag manager1] [eip1_twice] = Some eip1_twice"
    by (simp add: ipReservationByAllTags_def manager1_def eip1_twice_def eip1_def)
  have many: "2 \<le> length (res_Assignments eip1_twice)"
    by (simp add: eip1_twice_def)
  have idle: "\<not> inProcess manager1 \<and> apiServerPort manager1 \<noteq> 0"
    by (simp add: manager1_def)
  from more_than_one_assignment_no_mutation [OF tag listing resolved many] idle
  show ?thesis
    by (simp add: eip1_twice_def eip1_def manager1_def)
qed

text \<open>
  C9. When the listing succeeds and no reservation in it carries the configured tag,
  \<open>reconcileServices\<close> returns the listing's error, which is \<^verbatim>\<open>nil\<close>, having issued the
  listing call and nothing else; the manager and the orchestrator state are unchanged. So
  does \<open>reconcileNodes\<close> whenever it gets as far as the listing.
\<close>

theorem no_matching_reservation_no_mutation:
  assumes tag: "eipTag m \<noteq> []"
    and listing: "ipResSvr_List c (projectID m) = Inr ipList"
    and absent: "ipReservationByAllTags [eipTag m] ipList = None"
  shows "reconcileServices c k8s m k svcs mode = (Returned None, m, k, [CallList (projectID m)]) \<and>
         (\<not> inProcess m \<and> apiServerPort m \<noteq> 0 \<longrightarrow>
            reconcileNodes c m nodes = (Returned None, m, [CallList (projectID m)]))"
proof (intro conjI impI)
  show "reconcileServices c k8s m k svcs mode = (Returned None, m, k, [CallList (projectID m)])"
    using tag listing absent by (simp add: reconcileServices_def)
next
  assume g: "\<not> inProcess m \<and> apiServerPort m \<noteq> 0"
  have "reconcileNodesGuarded c (m\<lparr>inProcess := True\<rparr>) nodes = (None, [CallList (projectID m)])"
    using tag listing absent by (simp add: reconcileNodesGuarded_def)
  with g show "reconcileNodes c m nodes = (Returned None, m, [CallList (projectID m)])"
    by (simp add: reconcileNodes_def)
qed

theorem no_matching_reservation_no_mutation_witness:
  "reconcileServices cloud1_otherTag memClient manager1 store1 [dns1, kubernetes1] ModeSync =
     (Returned None, manager1, store1, [CallList ''project-1'']) \<and>
   reconcileNodes cloud1_otherTag manager1 [worker1, cp1, cp2] =
     (Returned None, manager1, [CallList ''project-1''])"
proof -
  have tag: "eipTag manager1 \<noteq> []"
    by (simp add: manager1_def)
  have listing: "ipResSvr_List cloud1_otherTag (projectID manager1) =
                   Inr [eip1\<lparr>res_Tags := [''another-cluster'']\<rparr>]"
    by (simp add: cloud1_otherTag_def cloud1_def)
  have absent: "ipReservationByAllTags [eipTag manager1] [eip1\<lparr>res_Tags := [''another-cluster'']\<rparr>] = None"
    by (simp add: ipReservationByAllTags_def manager1_def eip1_def)
  have idle: "\<not> inProcess manager1 \<and> apiServerPort manager1 \<noteq> 0"
    by (simp add: manager1_def)
  from no_matching_reservation_no_mutation [OF tag listing absent] idle
  show ?thesis
    by (simp add: manager1_def)
qed

subsection \<open>Failover\<close>

text \<open>
  C1, with the conditions the code puts on it. Let the guard flag be clear, the desired
  port be set, the reservation resolved from the listing have at most one assignment and
  the probe of the elastic IP be unhealthy. Then \<open>reconcileNodes\<close> issues the listing,
  the probe, the calls of the reassignment over the control-plane-labelled nodes and the
  deferred close, and returns what the reassignment returns:
  \<^item> with the node-side port unknown, the error for that, and no node is looked up or probed;
  \<^item> otherwise the labelled nodes are visited in input order, for each its address lookup
    and then the probes of its eligible addresses (not of type Hostname, the URL not the
    elastic IP's own) in input order, as long as they are passed over. At the first node
    \<open>n\<close> that is not:
    \<^item> if its address lookup fails, that error is returned at once;
    \<^item> if \<open>a\<close> is its first address whose probe returns 200, the instance lookup of \<open>n\<close>
      follows. If it fails, its error is returned at once. If the reservation has exactly
      one assignment, one unassign call follows; if it fails, its error is returned at
      once. In these three cases no assign call is made. Otherwise exactly one assign call
      follows, of the reservation's address to the device of \<open>n\<close>, immediately after the
      unassign call if there was one, and its result is returned.
\<close>

theorem reconcileNodes_reassigns_to_first_candidate:
  assumes guard: "\<not> inProcess m" "apiServerPort m \<noteq> 0" "eipTag m \<noteq> []"
    and listing: "ipResSvr_List c (projectID m) = Inr ipList"
    and resolved: "ipReservationByAllTags [eipTag m] ipList = Some ip"
    and single: "length (res_Assignments ip) \<le> 1"
    and url: "eipURL = healthzURL (res_Address ip) (apiServerPort m)"
    and request: "http_NewRequest c eipURL = None"
    and probe: "unhealthy (httpClient_Do c eipURL)"
  shows
    "(nodeAPIServerPort m = 0 \<longrightarrow>
        reconcileNodes c m nodes = unhealthyRun c m eipURL (Some ErrNodePortNotDetermined) []) \<and>
     (\<forall>pre n post.
        nodeAPIServerPort m \<noteq> 0 \<and> cpNodes nodes = pre @ n # post \<and>
        (\<forall>n' \<in> set pre. passedOver c m eipURL n') \<longrightarrow>
        (\<forall>err.
           instances_NodeAddresses c (node_Name n) = Inl err \<longrightarrow>
           reconcileNodes c m nodes =
             unhealthyRun c m eipURL (Some err)
               (visitsOf c m eipURL pre @ [CallNodeAddresses (node_Name n)])) \<and>
        (\<forall>as1 a as2.
           instances_NodeAddresses c (node_Name n) = Inr (as1 @ a # as2) \<and>
           (\<forall>a' \<in> set as1. \<not> candidate c m eipURL a') \<and> candidate c m eipURL a \<longrightarrow>
           (\<forall>err.
              instances_InstanceID c (node_Name n) = Inl err \<longrightarrow>
              reconcileNodes c m nodes =
                unhealthyRun c m eipURL (Some err)
                  (visitsOf c m eipURL pre @ [CallNodeAddresses (node_Name n)]
                   @ probesOf c m eipURL as1
                   @ [CallDo (healthzURL (addr_Address a) (nodeAPIServerPort m)),
                      CallInstanceID (node_Name n)])) \<and>
           (\<forall>deviceID err.
              instances_InstanceID c (node_Name n) = Inr deviceID \<and>
              length (res_Assignments ip) = 1 \<and>
              deviceIPSrv_Unassign c (asg_ID (res_Assignments ip ! 0)) = Some err \<longrightarrow>
              reconcileNodes c m nodes =
                unhealthyRun c m eipURL (Some err)
                  (visitsOf c m eipURL pre @ [CallNodeAddresses (node_Name n)]
                   @ probesOf c m eipURL as1
                   @ [CallDo (healthzURL (addr_Address a) (nodeAPIServerPort m)),
                      CallInstanceID (node_Name n),
                      CallUnassign (asg_ID (res_Assignments ip ! 0))])) \<and>
           (\<forall>deviceID.
              instances_InstanceID c (node_Name n) = Inr deviceID \<and>
              (length (res_Assignments ip) = 1 \<longrightarrow>
                 deviceIPSrv_Unassign c (asg_ID (res_Assignments ip ! 0)) = None) \<longrightarrow>
              reconcileNodes c m nodes =
                unhealthyRun c m eipURL (deviceIPSrv_Assign c deviceID (res_Address ip))
                  (visitsOf c m eipURL pre @ [CallNodeAddresses (node_Name n)]
                   @ probesOf c m eipURL as1
                   @ [CallDo (healthzURL (addr_Address a) (nodeAPIServerPort m)),
                      CallInstanceID (node_Name n)]
                   @ unassignOf ip
                   @ [CallAssign deviceID (res_Address ip)]))))"
proof (intro conjI allI impI; (elim conjE)?)
  note run = reconcileNodes_unhealthy [OF guard listing resolved single url request probe]
  {
    assume "nodeAPIServerPort m = 0"
    then have "reassign c m (cpNodes nodes) ip eipURL = (Some ErrNodePortNotDetermined, [])"
      by (simp add: reassign_def)
    then show "reconcileNodes c m nodes = unhealthyRun c m eipURL (Some ErrNodePortNotDetermined) []"
      by (rule run)
  }
  {
    fix pre n post err
    assume port: "nodeAPIServerPort m \<noteq> 0" and nodes: "cpNodes nodes = pre @ n # post"
      and pre: "\<forall>n' \<in> set pre. passedOver c m eipURL n'"
      and fails: "instances_NodeAddresses c (node_Name n) = Inl err"
    have "reassign c m (cpNodes nodes) ip eipURL =
            (Some err, visitsOf c m eipURL pre @ [CallNodeAddresses (node_Name n)])"
      using port reassignNodes_lookup_fails [OF pre fails, of ip post]
      by (simp add: reassign_def nodes)
    then show "reconcileNodes c m nodes =
             unhealthyRun c m eipURL (Some err)
               (visitsOf c m eipURL pre @ [CallNodeAddresses (node_Name n)])"
      by (rule run)
  }
  {
    fix pre n post as1 a as2
    assume port: "nodeAPIServerPort m \<noteq> 0" and nodes: "cpNodes nodes = pre @ n # post"
      and pre: "\<forall>n' \<in> set pre. passedOver c m eipURL n'"
      and addresses: "instances_NodeAddresses c (node_Name n) = Inr (as1 @ a # as2)"
      and as1: "\<forall>a' \<in> set as1. \<not> candidate c m eipURL a'"
      and cand: "candidate c m eipURL a"
    note stop = reassign_stops_at_candidate [OF port pre addresses as1 cand, of ip _ _ post,
                  folded nodes]
    {
      fix err
      assume "instances_InstanceID c (node_Name n) = Inl err"
      then have "assignTo c ip (node_Name n) = (Some err, [CallInstanceID (node_Name n)])"
        by (rule assignTo_no_device)
      from run [OF stop [OF this]]
      show "reconcileNodes c m nodes =
                unhealthyRun c m eipURL (Some err)
                  (visitsOf c m eipURL pre @ [CallNodeAddresses (node_Name n)]
                   @ probesOf c m eipURL as1
                   @ [CallDo (healthzURL (addr_Address a) (nodeAPIServerPort m)),
                      CallInstanceID (node_Name n)])"
        by simp
    }
    {
      fix deviceID err
      assume "instances_InstanceID c (node_Name n) = Inr deviceID"
        and "length (res_Assignments ip) = 1"
        and "deviceIPSrv_Unassign c (asg_ID (res_Assignments ip ! 0)) = Some err"
      then have "assignTo c ip (node_Name n) =
                   (Some err, [CallInstanceID (node_Name n),
                               CallUnassign (asg_ID (res_Assignments ip ! 0))])"
        by (rule assignTo_unassign_fails)
      from run [OF stop [OF this]]
      show "reconcileNodes c m nodes =
                unhealthyRun c m eipURL (Some err)
                  (visitsOf c m eipURL pre @ [CallNodeAddresses (node_Name n)]
                   @ probesOf c m eipURL as1
                   @ [CallDo (healthzURL (addr_Address a) (nodeAPIServerPort m)),
                      CallInstanceID (node_Name n),
                      CallUnassign (asg_ID (res_Assignments ip ! 0))])"
        by simp
    }
    {
      fix deviceID
      assume device: "instances_InstanceID c (node_Name n) = Inr deviceID"
        and un: "length (res_Assignments ip) = 1 \<longrightarrow>
                 deviceIPSrv_Unassign c (asg_ID (res_Assignments ip ! 0)) = None"
      have "assignTo c ip (node_Name n) =
              (deviceIPSrv_Assign c deviceID (res_Address ip),
               CallInstanceID (node_Name n) # unassignOf ip @ [CallAssign deviceID (res_Address ip)])"
        using device un by (intro assignTo_succeeds) simp_all
      from run [OF stop [OF this]]
      show "reconcileNodes c m nodes =
                unhealthyRun c m eipURL (deviceIPSrv_Assign c deviceID (res_Address ip))
                  (visitsOf c m eipURL pre @ [CallNodeAddresses (node_Name n)]
                   @ probesOf c m eipURL as1
                   @ [CallDo (healthzURL (addr_Address a) (nodeAPIServerPort m)),
                      CallInstanceID (node_Name n)]
                   @ unassignOf ip
                   @ [CallAssign deviceID (res_Address ip)])"
        by simp
    }
  }
qed

text \<open>
  One run for each case: the assignment, a refused unassign call, a failed instance
  lookup, a failed address lookup, an unknown node-side port.
\<close>

theorem reconcileNodes_reassigns_to_first_candidate_witness:
  "reconcileNodes cloud1 manager1 [worker1, cp1, cp2] =
     (Returned None, manager1,
      [CallList ''project-1'', CallDo ''https://192.0.2.10:6443/healthz'',
       CallNodeAddresses ''cp-1'', CallDo ''https://10.0.0.1:6443/healthz'',
       CallNodeAddresses ''cp-2'', CallDo ''https://10.0.0.2:6443/healthz'',
       CallInstanceID ''cp-2'', CallUnassign ''asg-1'',
       CallAssign ''device-cp-2'' ''192.0.2.10'']) \<and>
   reconcileNodes cloud1_noUnassign manager1 [worker1, cp1, cp2] =
     (Returned (Some (ErrExternal ''unassign refused'')), manager1,
      [CallList ''project-1'', CallDo ''https://192.0.2.10:6443/healthz'',
       CallNodeAddresses ''cp-1'', CallDo ''https://10.0.0.1:6443/healthz'',
       CallNodeAddresses ''cp-2'', CallDo ''https://10.0.0.2:6443/healthz'',
       CallInstanceID ''cp-2'', CallUnassign ''asg-1'']) \<and>
   reconcileNodes cloud1_noDevice manager1 [worker1, cp1, cp2] =
     (Returned (Some (ErrExternal ''device not found'')), manager1,
      [CallList ''project-1'', CallDo ''https://192.0.2.10:6443/healthz'',
       CallNodeAddresses ''cp-1'', CallDo ''https://10.0.0.1:6443/healthz'',
       CallNodeAddresses ''cp-2'', CallDo ''https://10.0.0.2:6443/healthz'',
       CallInstanceID ''cp-2'']) \<and>
   reconcileNodes cloud1_cp2Gone manager1 [worker1, cp1, cp2] =
     (Returned (Some (ErrExternal ''instance not found'')), manager1,
      [CallList ''project-1'', CallDo ''https://192.0.2.10:6443/healthz'',
       CallNodeAddresses ''cp-1'', CallDo ''https://10.0.0.1:6443/healthz'',
       CallNodeAddresses ''cp-2'']) \<and>
   reconcileNodes cloud1 manager1_noNodePort [worker1, cp1, cp2] =
     (Returned (Some ErrNodePortNotDetermined), manager1_noNodePort,
      [CallList ''project-1'', CallDo ''https://192.0.2.10:6443/healthz''])"
proof -
  let ?url = "''https://192.0.2.10:6443/healthz''"
  let ?nodes = "[worker1, cp1, cp2]"
  let ?a = "\<lparr>addr_Type = ''InternalIP'', addr_Address = ''10.0.0.2''\<rparr>"
  let ?h = "\<lparr>addr_Type = ''Hostname'', addr_Address = ''cp-2''\<rparr>"
  have guard: "\<not> inProcess manager1" "apiServerPort manager1 \<noteq> 0" "eipTag manager1 \<noteq> []"
    and guard0: "\<not> inProcess manager1_noNodePort" "apiServerPort manager1_noNodePort \<noteq> 0"
      "eipTag manager1_noNodePort \<noteq> []"
    by (simp_all add: manager1_def manager1_noNodePort_def)
  have listing: "ipResSvr_List cloud1 (projectID manager1) = Inr [eip1]"
    "ipResSvr_List cloud1_noUnassign (projectID manager1) = Inr [eip1]"
    "ipResSvr_List cloud1_noDevice (projectID manager1) = Inr [eip1]"
    "ipResSvr_List cloud1_cp2Gone (projectID manager1) = Inr [eip1]"
    "ipResSvr_List cloud1 (projectID manager1_noNodePort) = Inr [eip1]"
    by (simp_all add: cloud1_def variant_defs)
  have resolved: "ipReservationByAllTags [eipTag manager1] [eip1] = Some eip1"
    "ipReservationByAllTags [eipTag manager1_noNodePort] [eip1] = Some eip1"
    by (simp_all add: ipReservationByAllTags_def manager1_def manager1_noNodePort_def eip1_def)
  have single: "length (res_Assignments eip1) \<le> 1"
    by (simp add: eip1_def)
  have url: "?url = healthzURL (res_Address eip1) (apiServerPort manager1)"
    "?url = healthzURL (res_Address eip1) (apiServerPort manager1_noNodePort)"
    by (simp_all add: healthzURL_def showInt_def showNat.simps eip1_def manager1_def
          manager1_noNodePort_def)
  have request: "http_NewRequest cloud1 ?url = None"
    "http_NewRequest cloud1_noUnassign ?url = None"
    "http_NewRequest cloud1_noDevice ?url = None"
    "http_NewRequest cloud1_cp2Gone ?url = None"
    by (simp_all add: cloud1_def variant_defs)
  have probe: "unhealthy (httpClient_Do cloud1 ?url)"
    "unhealthy (httpClient_Do cloud1_noUnassign ?url)"
    "unhealthy (httpClient_Do cloud1_noDevice ?url)"
    "unhealthy (httpClient_Do cloud1_cp2Gone ?url)"
    by (simp_all add: cloud1_def variant_defs unhealthy_def)
  have port: "nodeAPIServerPort manager1 \<noteq> 0" and port0: "nodeAPIServerPort manager1_noNodePort = 0"
    by (simp_all add: manager1_def manager1_noNodePort_def)
  have nodes: "cpNodes ?nodes = [cp1] @ cp2 # []"
    by (simp add: cpNodes_def worker1_def cp1_def cp2_def controlPlaneLabel_def)
  have pre: "\<forall>n' \<in> set [cp1]. passedOver cloud1 manager1 ?url n'"
    "\<forall>n' \<in> set [cp1]. passedOver cloud1_noUnassign manager1 ?url n'"
    "\<forall>n' \<in> set [cp1]. passedOver cloud1_noDevice manager1 ?url n'"
    "\<forall>n' \<in> set [cp1]. passedOver cloud1_cp2Gone manager1 ?url n'"
    by (simp_all add: passedOver_def lookupSucceeds_def addressesOf_def candidate_def
          eligible_def returns200_def healthzURL_def showInt_def showNat.simps
          cloud1_def variant_defs cp1_def manager1_def)
  have addresses: "instances_NodeAddresses cloud1 (node_Name cp2) = Inr ([?h] @ ?a # [])"
    "instances_NodeAddresses cloud1_noUnassign (node_Name cp2) = Inr ([?h] @ ?a # [])"
    "instances_NodeAddresses cloud1_noDevice (node_Name cp2) = Inr ([?h] @ ?a # [])"
    and gone: "instances_NodeAddresses cloud1_cp2Gone (node_Name cp2) =
                 Inl (ErrExternal ''instance not found'')"
    by (simp_all add: cloud1_def variant_defs cp2_def)
  have before: "\<forall>a' \<in> set [?h]. \<not> candidate cloud1 manager1 ?url a'"
    "\<forall>a' \<in> set [?h]. \<not> candidate cloud1_noUnassign manager1 ?url a'"
    "\<forall>a' \<in> set [?h]. \<not> candidate cloud1_noDevice manager1 ?url a'"
    by (simp_all add: candidate_def eligible_def)
  have healthy: "candidate cloud1 manager1 ?url ?a"
    "candidate cloud1_noUnassign manager1 ?url ?a"
    "candidate cloud1_noDevice manager1 ?url ?a"
    by (simp_all add: cloud1_def variant_defs candidate_def eligible_def returns200_def
          healthzURL_def showInt_def showNat.simps manager1_def)
  have device: "instances_InstanceID cloud1 (node_Name cp2) = Inr ''device-cp-2''"
    "instances_InstanceID cloud1_noUnassign (node_Name cp2) = Inr ''device-cp-2''"
    and noDevice: "instances_InstanceID cloud1_noDevice (node_Name cp2) =
                     Inl (ErrExternal ''device not found'')"
    by (simp_all add: cloud1_def variant_defs cp2_def)
  have one: "length (res_Assignments eip1) = 1"
    by (simp add: eip1_def)
  have released: "length (res_Assignments eip1) = 1 \<longrightarrow>
                    deviceIPSrv_Unassign cloud1 (asg_ID (res_Assignments eip1 ! 0)) = None"
    and refused: "deviceIPSrv_Unassign cloud1_noUnassign (asg_ID (res_Assignments eip1 ! 0)) =
                    Some (ErrExternal ''unassign refused'')"
    by (simp_all add: cloud1_def variant_defs)
  have assigned: "reconcileNodes cloud1 manager1 ?nodes =
      unhealthyRun cloud1 manager1 ?url (deviceIPSrv_Assign cloud1 ''device-cp-2'' (res_Address eip1))
        (visitsOf cloud1 manager1 ?url [cp1] @ [CallNodeAddresses (node_Name cp2)]
         @ probesOf cloud1 manager1 ?url [?h]
         @ [CallDo (healthzURL (addr_Address ?a) (nodeAPIServerPort manager1)),
            CallInstanceID (node_Name cp2)]
         @ unassignOf eip1
         @ [CallAssign ''device-cp-2'' (res_Address eip1)])"
    using reconcileNodes_reassigns_to_first_candidate
            [OF guard listing(1) resolved(1) single url(1) request(1) probe(1), of ?nodes]
          port nodes pre(1) addresses(1) before(1) healthy(1) device(1) released
    by blast
  have unassign_failed: "reconcileNodes cloud1_noUnassign manager1 ?nodes =
      unhealthyRun cloud1_noUnassign manager1 ?url (Some (ErrExternal ''unassign refused''))
        (visitsOf cloud1_noUnassign manager1 ?url [cp1] @ [CallNodeAddresses (node_Name cp2)]
         @ probesOf cloud1_noUnassign manager1 ?url [?h]
         @ [CallDo (healthzURL (addr_Address ?a) (nodeAPIServerPort manager1)),
            CallInstanceID (node_Name cp2),
            CallUnassign (asg_ID (res_Assignments eip1 ! 0))])"
    using reconcileNodes_reassigns_to_first_candidate
            [OF guard listing(2) resolved(1) single url(1) request(2) probe(2), of ?nodes]
          port nodes pre(2) addresses(2) before(2) healthy(2) device(2) one refused
    by blast
  have device_failed: "reconcileNodes cloud1_noDevice manager1 ?nodes =
      unhealthyRun cloud1_noDevice manager1 ?url (Some (ErrExternal ''device not found''))
        (visitsOf cloud1_noDevice manager1 ?url [cp1] @ [CallNodeAddresses (node_Name cp2)]
         @ probesOf cloud1_noDevice manager1 ?url [?h]
         @ [CallDo (healthzURL (addr_Address ?a) (nodeAPIServerPort manager1)),
            CallInstanceID (node_Name cp2)])"
    using reconcileNodes_reassigns_to_first_candidate
            [OF guard listing(3) resolved(1) single url(1) request(3) probe(3), of ?nodes]
          port nodes pre(3) addresses(3) before(3) healthy(3) noDevice
    by blast
  have lookup_failed: "reconcileNodes cloud1_cp2Gone manager1 ?nodes =
      unhealthyRun cloud1_cp2Gone manager1 ?url (Some (ErrExternal ''instance not found''))
        (visitsOf cloud1_cp2Gone manager1 ?url [cp1] @ [CallNodeAddresses (node_Name cp2)])"
    using reconcileNodes_reassigns_to_first_candidate
            [OF guard listing(4) resolved(1) single url(1) request(4) probe(4), of ?nodes]
          port nodes pre(4) gone
    by blast
  have port_unknown: "reconcileNodes cloud1 manager1_noNodePort ?nodes =
      unhealthyRun cloud1 manager1_noNodePort ?url (Some ErrNodePortNotDetermined) []"
    using reconcileNodes_reassigns_to_first_candidate
            [OF guard0 listing(5) resolved(2) single url(2) request(1) probe(1), of ?nodes]
          port0
    by blast
  show ?thesis
    unfolding assigned unassign_failed device_failed lookup_failed port_unknown
    by (simp add: trace_defs cloud1_def variant_defs manager1_def eip1_def cp1_def cp2_def)
qed

text \<open>
  As the claim is worded, without those conditions, it fails: with a healthy \<open>cp-2\<close> whose
  instance lookup fails, the lookup's error is returned and no assign call is made; and
  while the node-side port is not known, no node is probed at all.
\<close>

theorem reconcileNodes_reassigns_counterexample:
  "reconcileNodes cloud1_noDevice manager1 [worker1, cp1, cp2] =
     (Returned (Some (ErrExternal ''device not found'')), manager1,
      [CallList ''project-1'', CallDo ''https://192.0.2.10:6443/healthz'',
       CallNodeAddresses ''cp-1'', CallDo ''https://10.0.0.1:6443/healthz'',
       CallNodeAddresses ''cp-2'', CallDo ''https://10.0.0.2:6443/healthz'',
       CallInstanceID ''cp-2''])
   \<and> httpClient_Do cloud1_noDevice ''https://10.0.0.2:6443/healthz'' =
       DoResponse \<lparr>StatusCode = 200, BodyPresent = True\<rparr>
   \<and> reconcileNodes cloud1 manager1_noNodePort [worker1, cp1, cp2] =
     (Returned (Some ErrNodePortNotDetermined), manager1_noNodePort,
      [CallList ''project-1'', CallDo ''https://192.0.2.10:6443/healthz''])"
  by (simp add: nodes_defs cluster_defs cloud1_noDevice_def manager1_noNodePort_def)

text \<open>
  C5, with the conditions the code puts on it. When no address of any node of the list is
  a candidate, \<open>reassign\<close> issues no call that changes anything, so neither an unassign nor
  an assign call, and the reservation's assignments stay as they are. What it returns:
  \<^item> the exhaustion error, after visiting every node, when the node-side port is known and
    every node's address lookup succeeds;
  \<^item> the error for the unknown port, without any call, when the node-side port is zero;
  \<^item> the error of the first address lookup that fails, after visiting the nodes before it,
    when the port is known and a lookup fails.
\<close>

theorem reassign_without_candidate:
  assumes "\<forall>n \<in> set nodes. \<forall>a \<in> set (addressesOf c n). \<not> candidate c m eipURL a"
  shows "(\<forall>e \<in> set (snd (reassign c m nodes ip eipURL)). \<not> mutation e) \<and>
         (nodeAPIServerPort m \<noteq> 0 \<and> (\<forall>n \<in> set nodes. lookupSucceeds c n) \<longrightarrow>
            reassign c m nodes ip eipURL = (Some ErrNoGoodCandidate, visitsOf c m eipURL nodes)) \<and>
         (nodeAPIServerPort m = 0 \<longrightarrow>
            reassign c m nodes ip eipURL = (Some ErrNodePortNotDetermined, [])) \<and>
         (\<forall>pre n post err.
            nodeAPIServerPort m \<noteq> 0 \<and> nodes = pre @ n # post \<and>
            (\<forall>n' \<in> set pre. lookupSucceeds c n') \<and>
            instances_NodeAddresses c (node_Name n) = Inl err \<longrightarrow>
            reassign c m nodes ip eipURL =
              (Some err, visitsOf c m eipURL pre @ [CallNodeAddresses (node_Name n)]))"
proof (intro conjI allI impI)
  show "\<forall>e \<in> set (snd (reassign c m nodes ip eipURL)). \<not> mutation e"
    using reassignNodes_no_candidate_no_mutation [OF assms, of ip]
    by (simp add: reassign_def)
next
  assume "nodeAPIServerPort m \<noteq> 0 \<and> (\<forall>n \<in> set nodes. lookupSucceeds c n)"
  then show "reassign c m nodes ip eipURL = (Some ErrNoGoodCandidate, visitsOf c m eipURL nodes)"
    using reassignNodes_no_candidate [OF _ assms, of ip]
    by (simp add: reassign_def)
next
  assume "nodeAPIServerPort m = 0"
  then show "reassign c m nodes ip eipURL = (Some ErrNodePortNotDetermined, [])"
    by (simp add: reassign_def)
next
  fix pre n post err
  assume h: "nodeAPIServerPort m \<noteq> 0 \<and> nodes = pre @ n # post \<and>
            (\<forall>n' \<in> set pre. lookupSucceeds c n') \<and>
            instances_NodeAddresses c (node_Name n) = Inl err"
  then have nodes: "nodes = pre @ n # post" by simp
  from assms have "\<forall>n' \<in> set pre. \<forall>a \<in> set (addressesOf c n'). \<not> candidate c m eipURL a"
    by (auto simp: nodes)
  from reassignNodes_first_lookup_fails [OF this, of n err ip post] h
  show "reassign c m nodes ip eipURL =
              (Some err, visitsOf c m eipURL pre @ [CallNodeAddresses (node_Name n)])"
    by (simp add: reassign_def)
qed

theorem reassign_without_candidate_witness:
  "reassign cloud1_allDown manager1 [cp1, cp2] eip1 ''https://192.0.2.10:6443/healthz'' =
     (Some ErrNoGoodCandidate,
      [CallNodeAddresses ''cp-1'', CallDo ''https://10.0.0.1:6443/healthz'',
       CallNodeAddresses ''cp-2'', CallDo ''https://10.0.0.2:6443/healthz'']) \<and>
   reassign cloud1_allDown manager1_noNodePort [cp1, cp2] eip1
       ''https://192.0.2.10:6443/healthz'' =
     (Some ErrNodePortNotDetermined, []) \<and>
   reassign cloud1_cp2Gone manager1 [cp1, cp2] eip1 ''https://192.0.2.10:6443/healthz'' =
     (Some (ErrExternal ''instance not found''),
      [CallNodeAddresses ''cp-1'', CallDo ''https://10.0.0.1:6443/healthz'',
       CallNodeAddresses ''cp-2''])"
proof -
  let ?url = "''https://192.0.2.10:6443/healthz''"
  have none: "\<forall>n \<in> set [cp1, cp2]. \<forall>a \<in> set (addressesOf cloud1_allDown n).
                \<not> candidate cloud1_allDown manager1 ?url a"
    "\<forall>n \<in> set [cp1, cp2]. \<forall>a \<in> set (addressesOf cloud1_allDown n).
                \<not> candidate cloud1_allDown manager1_noNodePort ?url a"
    by (simp_all add: addressesOf_def cloud1_allDown_def cloud1_def cp1_def cp2_def candidate_def
          returns200_def)
  have none_gone: "\<forall>n \<in> set [cp1, cp2]. \<forall>a \<in> set (addressesOf cloud1_cp2Gone n).
                \<not> candidate cloud1_cp2Gone manager1 ?url a"
    by (simp add: addressesOf_def cloud1_cp2Gone_def cloud1_def cp1_def cp2_def candidate_def
          eligible_def returns200_def healthzURL_def showInt_def showNat.simps manager1_def)
  have ok: "nodeAPIServerPort manager1 \<noteq> 0 \<and> (\<forall>n \<in> set [cp1, cp2]. lookupSucceeds cloud1_allDown n)"
    by (simp add: manager1_def lookupSucceeds_def cloud1_allDown_def cloud1_def cp1_def cp2_def)
  have unknown: "nodeAPIServerPort manager1_noNodePort = 0"
    by (simp add: manager1_noNodePort_def)
  have gone: "nodeAPIServerPort manager1 \<noteq> 0 \<and> [cp1, cp2] = [cp1] @ cp2 # [] \<and>
              (\<forall>n' \<in> set [cp1]. lookupSucceeds cloud1_cp2Gone n') \<and>
              instances_NodeAddresses cloud1_cp2Gone (node_Name cp2) =
                Inl (ErrExternal ''instance not found'')"
    by (simp add: manager1_def lookupSucceeds_def cloud1_cp2Gone_def cloud1_def cp1_def cp2_def)
  have exhausted: "reassign cloud1_allDown manager1 [cp1, cp2] eip1 ?url =
          (Some ErrNoGoodCandidate, visitsOf cloud1_allDown manager1 ?url [cp1, cp2])"
    using reassign_without_candidate [OF none(1), of eip1] ok by blast
  have port: "reassign cloud1_allDown manager1_noNodePort [cp1, cp2] eip1 ?url =
          (Some ErrNodePortNotDetermined, [])"
    using reassign_without_candidate [OF none(2), of eip1] unknown by blast
  have lookup: "reassign cloud1_cp2Gone manager1 [cp1, cp2] eip1 ?url =
          (Some (ErrExternal ''instance not found''),
           visitsOf cloud1_cp2Gone manager1 ?url [cp1] @ [CallNodeAddresses (node_Name cp2)])"
    using reassign_without_candidate [OF none_gone, of eip1] gone by blast
  show ?thesis
    unfolding exhausted port lookup
    by (simp add: visitsOf_def probesOf_def addressesOf_def eligible_def healthzURL_def
          showInt_def showNat.simps cloud1_allDown_def cloud1_cp2Gone_def cloud1_def
          manager1_def cp1_def cp2_def)
qed

text \<open>
  As the claim is worded it fails: a failed address lookup is returned as it is, and an
  unknown node-side port gives the error for that, in both cases instead of the exhaustion
  error.
\<close>

theorem reassign_without_candidate_counterexample:
  "reassign cloud1_noAddresses manager1 [cp1, cp2] eip1 ''https://192.0.2.10:6443/healthz'' =
     (Some (ErrExternal ''instance not found''), [CallNodeAddresses ''cp-1''])
   \<and> reassign cloud1_allDown manager1_noNodePort [cp1, cp2] eip1 ''https://192.0.2.10:6443/healthz'' =
     (Some ErrNodePortNotDetermined, [])"
  by (simp add: reassign_def cloud1_noAddresses_def cloud1_allDown_def manager1_noNodePort_def cluster_defs)

subsection \<open>Panics and response bodies\<close>

text \<open>
  C2. In the earlier package \<open>reconcileNodes\<close> panics: the probe of the elastic IP fails in
  transport, so there is no response, \<open>cp-2\<close> is healthy and the reassignment succeeds,
  and line 122 then reads the body of the response that is not there. The later package
  registers the close only when the request returned no error.
\<close>

theorem reconcileNodes_packet_panics_after_transport_error:
  "reconcileNodes_packet ipReservationByAllTags cloud1 manager1 [worker1, cp1, cp2] =
     (Panicked, manager1,
      [CallList ''project-1'', CallDo ''https://192.0.2.10:6443/healthz'',
       CallNodeAddresses ''cp-1'', CallDo ''https://10.0.0.1:6443/healthz'',
       CallDo ''https://192.0.2.10:6443/healthz'',
       CallNodeAddresses ''cp-2'', CallDo ''https://10.0.0.2:6443/healthz'',
       CallInstanceID ''cp-2'', CallUnassign ''asg-1'',
       CallAssign ''device-cp-2'' ''192.0.2.10''])"
  by (simp add: reconcileNodes_packet_def reconcileNodesGuarded_packet_def closeAndReturn_packet_def
        responseOf_def
        nodes_defs cluster_defs)

lemma reconcileNodes_never_panics: "fst (reconcileNodes c m nodes) \<noteq> Panicked"
  by (simp add: reconcileNodes_def split: prod.splits)

lemma reconcileServices_never_panics: "fst (reconcileServices c k8s m k svcs mode) \<noteq> Panicked"
  by (simp add: reconcileServices_def split: sum.splits option.splits prod.splits)

text \<open>
  When the probe's error comes with a response (a redirect the client stopped), line 122
  has a body to close and the earlier package returns as well.
\<close>

lemma reconcileNodes_packet_returns_after_stopped_redirect:
  "reconcileNodes_packet ipReservationByAllTags cloud1_redirected manager1 [worker1, cp1, cp2] =
     (Returned None, manager1,
      [CallList ''project-1'', CallDo ''https://192.0.2.10:6443/healthz'',
       CallNodeAddresses ''cp-1'', CallDo ''https://10.0.0.1:6443/healthz'',
       CallDo ''https://192.0.2.10:6443/healthz'',
       CallNodeAddresses ''cp-2'', CallDo ''https://10.0.0.2:6443/healthz'',
       CallInstanceID ''cp-2'', CallUnassign ''asg-1'',
       CallAssign ''device-cp-2'' ''192.0.2.10'',
       BodyClose ''https://192.0.2.10:6443/healthz''])"
  by (simp add: reconcileNodes_packet_def reconcileNodesGuarded_packet_def closeAndReturn_packet_def
        responseOf_def nodes_defs cluster_defs cloud1_redirected_def)

text \<open>
  C3. The bodies of the responses received inside \<open>reassign\<close> are never closed: here the
  probes of \<open>cp-1\<close> (500) and of \<open>cp-2\<close> (200) both return a response with a body, and the
  only close of the run is the deferred one for the probe of the elastic IP.
\<close>

theorem reassign_leaves_bodies_open:
  "reconcileNodes cloud1_eip503 manager1 [worker1, cp1, cp2] =
     (Returned None, manager1,
      [CallList ''project-1'', CallDo ''https://192.0.2.10:6443/healthz'',
       CallNodeAddresses ''cp-1'', CallDo ''https://10.0.0.1:6443/healthz'',
       CallNodeAddresses ''cp-2'', CallDo ''https://10.0.0.2:6443/healthz'',
       CallInstanceID ''cp-2'', CallUnassign ''asg-1'',
       CallAssign ''device-cp-2'' ''192.0.2.10'',
       BodyClose ''https://192.0.2.10:6443/healthz''])
   \<and> httpClient_Do cloud1_eip503 ''https://10.0.0.1:6443/healthz'' =
       DoResponse \<lparr>StatusCode = 500, BodyPresent = True\<rparr>
   \<and> httpClient_Do cloud1_eip503 ''https://10.0.0.2:6443/healthz'' =
       DoResponse \<lparr>StatusCode = 200, BodyPresent = True\<rparr>"
  by (simp add: nodes_defs cluster_defs cloud1_eip503_def)

subsection \<open>The service mirror\<close>

lemma trackPorts_nodePort:
  "nodeAPIServerPort (trackPorts m ports) = IntVal (sp_TargetPort (ports ! 0))"
  by (simp add: trackPorts_def Let_def)

lemma trackPorts_apiPort:
  "apiServerPort (trackPorts m ports) =
     (if apiServerPort m = 0 then IntVal (sp_TargetPort (ports ! 0)) else apiServerPort m)"
  by (simp add: trackPorts_def Let_def)

lemma mirrorKubernetes_manager:
  "spec_Ports (svc_Spec svc) \<noteq> [] \<Longrightarrow>
   fst (snd (mirrorKubernetes k8s m k eip svc)) = trackPorts m (spec_Ports (svc_Spec svc))"
  by (simp add: mirrorKubernetes_def Let_def split: prod.splits option.splits)

lemma servicesLoop_first_kubernetes:
  "\<forall>s \<in> set pre. \<not> isKubernetes s \<Longrightarrow> isKubernetes svc \<Longrightarrow>
   servicesLoop k8s m k eip mode (pre @ svc # post) = mirrorKubernetes k8s m k eip svc"
  by (induction pre) (auto simp: isKubernetes_def)

lemma reconcileServices_shape:
  "(managerOf (reconcileServices c k8s m k svcs mode) = m \<and>
    set (serviceCalls (reconcileServices c k8s m k svcs mode)) \<subseteq> {CallList (projectID m)}) \<or>
   (\<exists>eip. managerOf (reconcileServices c k8s m k svcs mode) =
            fst (snd (servicesLoop k8s m k eip mode svcs)) \<and>
          serviceCalls (reconcileServices c k8s m k svcs mode) =
            CallList (projectID m) # snd (snd (snd (servicesLoop k8s m k eip mode svcs))))"
proof (cases "eipTag m = []")
  case True
  then show ?thesis
    by (simp add: reconcileServices_def managerOf_def serviceCalls_def)
next
  case tag: False
  show ?thesis
  proof (cases "ipResSvr_List c (projectID m)")
    case (Inl err)
    with tag show ?thesis
      by (simp add: reconcileServices_def managerOf_def serviceCalls_def)
  next
    case (Inr ipList)
    show ?thesis
    proof (cases "ipReservationByAllTags [eipTag m] ipList")
      case None
      with tag Inr show ?thesis
        by (simp add: reconcileServices_def managerOf_def serviceCalls_def)
    next
      case (Some ip)
      show ?thesis
      proof (cases "length (res_Assignments ip) > 1")
        case True
        with tag Inr Some show ?thesis
          by (simp add: reconcileServices_def managerOf_def serviceCalls_def)
      next
        case False
        with tag Inr Some have
          "managerOf (reconcileServices c k8s m k svcs mode) =
             fst (snd (servicesLoop k8s m k (res_Address ip) mode svcs)) \<and>
           serviceCalls (reconcileServices c k8s m k svcs mode) =
             CallList (projectID m) # snd (snd (snd (servicesLoop k8s m k (res_Address ip) mode svcs)))"
          by (simp add: reconcileServices_def managerOf_def serviceCalls_def split: prod.splits)
        then show ?thesis by blast
      qed
    qed
  qed
qed

text \<open>
  C8. Take a call of \<open>reconcileServices\<close> that gets as far as the services (the tag set,
  the listing read, the reservation resolved with at most one assignment) and whose first
  service \<^verbatim>\<open>default/kubernetes\<close> has a port. After the call, whatever it returns, the
  node-side port is the target value of that service's first port; the desired port is
  that value too when it was zero before the call, and is what it was when it was not.
\<close>

theorem reconcileServices_tracks_ports:
  assumes tag: "eipTag m \<noteq> []"
    and listing: "ipResSvr_List c (projectID m) = Inr ipList"
    and resolved: "ipReservationByAllTags [eipTag m] ipList = Some ip"
    and single: "length (res_Assignments ip) \<le> 1"
    and before: "\<forall>s \<in> set pre. \<not> isKubernetes s"
    and upstream: "isKubernetes svc"
    and ports: "spec_Ports (svc_Spec svc) \<noteq> []"
  shows "nodeAPIServerPort (managerOf (reconcileServices c k8s m k (pre @ svc # post) mode)) =
           IntVal (sp_TargetPort (spec_Ports (svc_Spec svc) ! 0)) \<and>
         (apiServerPort m = 0 \<longrightarrow>
            apiServerPort (managerOf (reconcileServices c k8s m k (pre @ svc # post) mode)) =
              IntVal (sp_TargetPort (spec_Ports (svc_Spec svc) ! 0))) \<and>
         (apiServerPort m \<noteq> 0 \<longrightarrow>
            apiServerPort (managerOf (reconcileServices c k8s m k (pre @ svc # post) mode)) =
              apiServerPort m)"
proof -
  have loop: "servicesLoop k8s m k (res_Address ip) mode (pre @ svc # post) =
                mirrorKubernetes k8s m k (res_Address ip) svc"
    using before upstream by (rule servicesLoop_first_kubernetes)
  have "managerOf (reconcileServices c k8s m k (pre @ svc # post) mode) =
          fst (snd (mirrorKubernetes k8s m k (res_Address ip) svc))"
    using tag listing resolved single
    by (simp add: reconcileServices_def managerOf_def loop split: prod.splits)
  then have "managerOf (reconcileServices c k8s m k (pre @ svc # post) mode) =
          trackPorts m (spec_Ports (svc_Spec svc))"
    using ports by (simp add: mirrorKubernetes_manager)
  then show ?thesis
    by (simp add: trackPorts_nodePort trackPorts_apiPort)
qed

theorem reconcileServices_tracks_ports_witness:
  "nodeAPIServerPort (managerOf (reconcileServices cloud1 memClient manager1_noPorts store1
                                  [dns1, kubernetes1] ModeSync)) = 6443 \<and>
   apiServerPort (managerOf (reconcileServices cloud1 memClient manager1_noPorts store1
                               [dns1, kubernetes1] ModeSync)) = 6443 \<and>
   nodeAPIServerPort (managerOf (reconcileServices cloud1 memClient manager1_port8443 store1
                                  [dns1, kubernetes1] ModeSync)) = 6443 \<and>
   apiServerPort (managerOf (reconcileServices cloud1 memClient manager1_port8443 store1
                               [dns1, kubernetes1] ModeSync)) = 8443"
proof -
  have tag: "eipTag manager1_noPorts \<noteq> []" "eipTag manager1_port8443 \<noteq> []"
    by (simp_all add: manager1_noPorts_def manager1_port8443_def manager1_def)
  have listing: "ipResSvr_List cloud1 (projectID manager1_noPorts) = Inr [eip1]"
    "ipResSvr_List cloud1 (projectID manager1_port8443) = Inr [eip1]"
    by (simp_all add: cloud1_def)
  have resolved: "ipReservationByAllTags [eipTag manager1_noPorts] [eip1] = Some eip1"
    "ipReservationByAllTags [eipTag manager1_port8443] [eip1] = Some eip1"
    by (simp_all add: ipReservationByAllTags_def manager1_noPorts_def manager1_port8443_def
          manager1_def eip1_def)
  have single: "length (res_Assignments eip1) \<le> 1"
    by (simp add: eip1_def)
  have before: "\<forall>s \<in> set [dns1]. \<not> isKubernetes s"
    by (simp add: isKubernetes_def dns1_def kubernetes1_def)
  have upstream: "isKubernetes kubernetes1"
    by (simp add: isKubernetes_def kubernetes1_def)
  have ports: "spec_Ports (svc_Spec kubernetes1) \<noteq> []"
    by (simp add: kubernetes1_def)
  have unset: "apiServerPort manager1_noPorts = 0"
    by (simp add: manager1_noPorts_def)
  have configured: "apiServerPort manager1_port8443 = 8443"
    by (simp add: manager1_port8443_def)
  have target: "IntVal (sp_TargetPort (spec_Ports (svc_Spec kubernetes1) ! 0)) = 6443"
    by (simp add: kubernetes1_def https6443_def)
  from reconcileServices_tracks_ports
         [OF tag(1) listing(1) resolved(1) single before upstream ports,
          of memClient store1 "[]" ModeSync]
       reconcileServices_tracks_ports
         [OF tag(2) listing(2) resolved(2) single before upstream ports,
          of memClient store1 "[]" ModeSync]
  show ?thesis
    by (simp add: unset configured target)
qed

text \<open>
  A desired port that is set survives every call, also one that ends early or finds no
  service.
\<close>

lemma mirrorKubernetes_keeps_port:
  "apiServerPort m \<noteq> 0 \<Longrightarrow> apiServerPort (fst (snd (mirrorKubernetes k8s m k eip svc))) = apiServerPort m"
  by (simp add: mirrorKubernetes_def Let_def trackPorts_apiPort split: prod.splits option.splits)

lemma servicesLoop_keeps_port:
  "apiServerPort m \<noteq> 0 \<Longrightarrow> apiServerPort (fst (snd (servicesLoop k8s m k eip mode svcs))) = apiServerPort m"
  by (induction svcs) (simp_all add: mirrorKubernetes_keeps_port)

theorem reconcileServices_keeps_port:
  assumes "apiServerPort m \<noteq> 0"
  shows "apiServerPort (managerOf (reconcileServices c k8s m k svcs mode)) = apiServerPort m"
  using reconcileServices_shape [of c k8s m k svcs mode] servicesLoop_keeps_port [OF assms]
  by auto

theorem reconcileServices_keeps_port_witness:
  "apiServerPort (managerOf (reconcileServices cloud1 memClient manager1_port8443 store1
                               [dns1, kubernetes1] ModeSync)) = 8443"
proof -
  have configured: "apiServerPort manager1_port8443 \<noteq> 0"
    by (simp add: manager1_port8443_def)
  show ?thesis
    using reconcileServices_keeps_port [OF configured, of cloud1 memClient store1
            "[dns1, kubernetes1]" ModeSync]
    by (simp add: manager1_port8443_def)
qed

lemma publishStatus_no_update: "UpdateService u \<notin> set (snd (snd (publishStatus k8s k eip)))"
  by (simp add: publishStatus_def split: sum.splits prod.splits)

lemma mirrorEndpoints_no_update: "UpdateService u \<notin> set (snd (snd (mirrorEndpoints k8s k svc)))"
  by (simp add: mirrorEndpoints_def split: sum.splits prod.splits)

lemma mirrorService_update:
  assumes "UpdateService u \<in> set (snd (snd (mirrorService k8s k eip ports)))"
  shows "\<exists>stored. Services_Get k8s k externalServiceNamespace externalServiceName = Inr stored \<and>
           u = overwriteOwned stored (externalService eip ports)"
proof (cases "Services_Get k8s k externalServiceNamespace externalServiceName")
  case (Inl err)
  obtain r k' where cr: "Services_Create k8s k (externalService eip ports) = (r, k')"
    by (cases "Services_Create k8s k (externalService eip ports)")
  obtain r' k'' tr where ps: "publishStatus k8s k' eip = (r', k'', tr)"
    by (cases "publishStatus k8s k' eip") auto
  have "UpdateService u \<notin> set tr"
    using publishStatus_no_update [of u k8s k' eip] ps by simp
  with assms Inl cr ps have False
    by (cases r) (simp_all add: mirrorService_def)
  then show ?thesis ..
next
  case (Inr stored)
  obtain r k' where up: "Services_Update k8s k (overwriteOwned stored (externalService eip ports)) = (r, k')"
    by (cases "Services_Update k8s k (overwriteOwned stored (externalService eip ports))")
  obtain r' k'' tr where ps: "publishStatus k8s k' eip = (r', k'', tr)"
    by (cases "publishStatus k8s k' eip") auto
  have "UpdateService u \<notin> set tr"
    using publishStatus_no_update [of u k8s k' eip] ps by simp
  with assms Inr up ps have "u = overwriteOwned stored (externalService eip ports)"
    by (cases r) (simp_all add: mirrorService_def)
  with Inr show ?thesis by simp
qed

lemma reconcileServices_resolved:
  assumes "e \<in> set (serviceCalls (reconcileServices c k8s m k svcs mode))"
    and "e \<noteq> CallList (projectID m)"
  shows "\<exists>ipList ip.
           ipResSvr_List c (projectID m) = Inr ipList \<and>
           ipReservationByAllTags [eipTag m] ipList = Some ip \<and>
           e \<in> set (snd (snd (snd (servicesLoop k8s m k (res_Address ip) mode svcs))))"
proof (cases "eipTag m = []")
  case True
  with assms show ?thesis
    by (simp add: reconcileServices_def serviceCalls_def)
next
  case tag: False
  show ?thesis
  proof (cases "ipResSvr_List c (projectID m)")
    case (Inl err)
    with tag assms show ?thesis
      by (simp add: reconcileServices_def serviceCalls_def)
  next
    case (Inr ipList)
    show ?thesis
    proof (cases "ipReservationByAllTags [eipTag m] ipList")
      case None
      with tag Inr assms show ?thesis
        by (simp add: reconcileServices_def serviceCalls_def)
    next
      case (Some ip)
      show ?thesis
      proof (cases "length (res_Assignments ip) > 1")
        case True
        with tag Inr Some assms show ?thesis
          by (simp add: reconcileServices_def serviceCalls_def)
      next
        case False
        with tag Inr Some have
          "serviceCalls (reconcileServices c k8s m k svcs mode) =
             CallList (projectID m) # snd (snd (snd (servicesLoop k8s m k (res_Address ip) mode svcs)))"
          by (simp add: reconcileServices_def serviceCalls_def split: prod.splits)
        with assms have
          "e \<in> set (snd (snd (snd (servicesLoop k8s m k (res_Address ip) mode svcs))))"
          by simp
        with Inr Some show ?thesis by blast
      qed
    qed
  qed
qed

lemma mirrorKubernetes_update:
  assumes "UpdateService u \<in> set (snd (snd (snd (mirrorKubernetes k8s m k eip svc))))"
  shows "\<exists>stored.
           Services_Get k8s (fst (snd (mirrorEndpoints k8s k svc)))
             externalServiceNamespace externalServiceName = Inr stored \<and>
           u = overwriteOwned stored
                 (externalService eip
                    (externalPorts (apiServerPort (trackPorts m (spec_Ports (svc_Spec svc))))
                       (spec_Ports (svc_Spec svc))))"
proof -
  obtain r k' tr where ep: "mirrorEndpoints k8s k svc = (r, k', tr)"
    by (cases "mirrorEndpoints k8s k svc") auto
  have tr: "UpdateService u \<notin> set tr"
    using mirrorEndpoints_no_update [of u k8s k svc] ep by simp
  let ?ports = "externalPorts (apiServerPort (trackPorts m (spec_Ports (svc_Spec svc))))
                  (spec_Ports (svc_Spec svc))"
  from assms ep tr have "UpdateService u \<in> set (snd (snd (mirrorService k8s k' eip ?ports)))"
    by (auto simp: mirrorKubernetes_def Let_def split: if_splits option.splits prod.splits)
  from mirrorService_update [OF this] ep show ?thesis by auto
qed

lemma servicesLoop_update:
  assumes "UpdateService u \<in> set (snd (snd (snd (servicesLoop k8s m k eip mode svcs))))"
  shows "\<exists>stored svc.
           svc \<in> set svcs \<and> isKubernetes svc \<and>
           Services_Get k8s (fst (snd (mirrorEndpoints k8s k svc)))
             externalServiceNamespace externalServiceName = Inr stored \<and>
           u = overwriteOwned stored
                 (externalService eip
                    (externalPorts (apiServerPort (trackPorts m (spec_Ports (svc_Spec svc))))
                       (spec_Ports (svc_Spec svc))))"
  using assms
proof (induction svcs)
  case Nil
  then show ?case by (simp split: if_splits)
next
  case (Cons s svcs)
  show ?case
  proof (cases "svc_Namespace s \<noteq> ''default'' \<or> svc_Name s \<noteq> ''kubernetes''")
    case True
    with Cons.prems have "UpdateService u \<in> set (snd (snd (snd (servicesLoop k8s m k eip mode svcs))))"
      by simp
    from Cons.IH [OF this] show ?thesis by auto
  next
    case False
    then have kube: "isKubernetes s" by (simp add: isKubernetes_def)
    from False Cons.prems
    have "UpdateService u \<in> set (snd (snd (snd (mirrorKubernetes k8s m k eip s))))"
      by simp
    from mirrorKubernetes_update [OF this] kube show ?thesis by auto
  qed
qed

lemma overwriteOwned_values:
  "spec_LoadBalancerIP (svc_Spec (overwriteOwned s (externalService eip ports))) = eip"
  "spec_Ports (svc_Spec (overwriteOwned s (externalService eip ports))) = ports"
  by (simp_all add: overwriteOwned_def externalService_def)

lemma externalPorts_tracked:
  "externalPorts (apiServerPort (trackPorts m ports)) ports =
     ports[0 := (ports ! 0)\<lparr>sp_Port :=
       (if apiServerPort m = 0 then IntVal (sp_TargetPort (ports ! 0)) else apiServerPort m)\<rparr>]"
  by (simp add: externalPorts_def trackPorts_apiPort)

lemma overwriteOwned_frame:
  "svc_Name (overwriteOwned s e) = svc_Name s"
  "svc_Namespace (overwriteOwned s e) = svc_Namespace s"
  "svc_Labels (overwriteOwned s e) = svc_Labels s"
  "svc_Annotations (overwriteOwned s e) = svc_Annotations s"
  "svc_ResourceVersion (overwriteOwned s e) = svc_ResourceVersion s"
  "svc_Status (overwriteOwned s e) = svc_Status s"
  "spec_Type (svc_Spec (overwriteOwned s e)) = spec_Type (svc_Spec s)"
  "spec_ExternalIPs (svc_Spec (overwriteOwned s e)) = spec_ExternalIPs (svc_Spec s)"
  "spec_ClusterIP (svc_Spec (overwriteOwned s e)) = spec_ClusterIP (svc_Spec s)"
  "spec_Selector (svc_Spec (overwriteOwned s e)) = spec_Selector (svc_Spec s)"
  by (simp_all add: overwriteOwned_def)

text \<open>
  C7. Every service update that \<open>reconcileServices\<close> issues writes the object it has just
  read from the store (under the mirrored service's namespace and name, in the state the
  endpoints step left) with the external address and the port list of its spec replaced
  and nothing else changed: name, namespace, labels, annotations, resource version,
  status and the other fields of the spec are those of the stored object. The address
  written is the resolved reservation's; the ports written are those of the upstream
  \<^verbatim>\<open>default/kubernetes\<close> service, the first listening on the desired port (the upstream
  target port when no desired port was set).
\<close>

theorem reconcileServices_update_overwrites_only_owned:
  assumes "UpdateService written \<in> set (serviceCalls (reconcileServices c k8s m k svcs mode))"
  shows "\<exists>stored svc ipList ip.
           svc \<in> set svcs \<and> isKubernetes svc \<and>
           Services_Get k8s (fst (snd (mirrorEndpoints k8s k svc)))
             externalServiceNamespace externalServiceName = Inr stored \<and>
           onlyOwnedOverwritten stored written \<and>
           svc_Name written = svc_Name stored \<and>
           svc_Namespace written = svc_Namespace stored \<and>
           svc_Labels written = svc_Labels stored \<and>
           svc_Annotations written = svc_Annotations stored \<and>
           svc_ResourceVersion written = svc_ResourceVersion stored \<and>
           svc_Status written = svc_Status stored \<and>
           spec_Type (svc_Spec written) = spec_Type (svc_Spec stored) \<and>
           spec_ExternalIPs (svc_Spec written) = spec_ExternalIPs (svc_Spec stored) \<and>
           spec_ClusterIP (svc_Spec written) = spec_ClusterIP (svc_Spec stored) \<and>
           spec_Selector (svc_Spec written) = spec_Selector (svc_Spec stored) \<and>
           ipResSvr_List c (projectID m) = Inr ipList \<and>
           ipReservationByAllTags [eipTag m] ipList = Some ip \<and>
           spec_LoadBalancerIP (svc_Spec written) = res_Address ip \<and>
           spec_Ports (svc_Spec written) =
             (spec_Ports (svc_Spec svc))
               [0 := (spec_Ports (svc_Spec svc) ! 0)\<lparr>sp_Port :=
                  (if apiServerPort m = 0
                   then IntVal (sp_TargetPort (spec_Ports (svc_Spec svc) ! 0))
                   else apiServerPort m)\<rparr>]"
proof -
  have "UpdateService written \<noteq> CallList (projectID m)" by simp
  from reconcileServices_resolved [OF assms this] obtain ipList ip where
    listing: "ipResSvr_List c (projectID m) = Inr ipList"
    and resolved: "ipReservationByAllTags [eipTag m] ipList = Some ip"
    and loop: "UpdateService written \<in>
                 set (snd (snd (snd (servicesLoop k8s m k (res_Address ip) mode svcs))))"
    by blast
  from servicesLoop_update [OF loop] obtain stored svc where
    svc: "svc \<in> set svcs" "isKubernetes svc"
    and get: "Services_Get k8s (fst (snd (mirrorEndpoints k8s k svc)))
                externalServiceNamespace externalServiceName = Inr stored"
    and w: "written = overwriteOwned stored
              (externalService (res_Address ip)
                 (externalPorts (apiServerPort (trackPorts m (spec_Ports (svc_Spec svc))))
                    (spec_Ports (svc_Spec svc))))"
    by blast
  have owned: "onlyOwnedOverwritten stored written"
    by (simp add: w onlyOwnedOverwritten_def overwriteOwned_def)
  have address: "spec_LoadBalancerIP (svc_Spec written) = res_Address ip"
    by (simp add: w overwriteOwned_values)
  have ports: "spec_Ports (svc_Spec written) =
             (spec_Ports (svc_Spec svc))
               [0 := (spec_Ports (svc_Spec svc) ! 0)\<lparr>sp_Port :=
                  (if apiServerPort m = 0
                   then IntVal (sp_TargetPort (spec_Ports (svc_Spec svc) ! 0))
                   else apiServerPort m)\<rparr>]"
    by (simp add: w overwriteOwned_values externalPorts_tracked)
  have frame:
    "svc_Name written = svc_Name stored"
    "svc_Namespace written = svc_Namespace stored"
    "svc_Labels written = svc_Labels stored"
    "svc_Annotations written = svc_Annotations stored"
    "svc_ResourceVersion written = svc_ResourceVersion stored"
    "svc_Status written = svc_Status stored"
    "spec_Type (svc_Spec written) = spec_Type (svc_Spec stored)"
    "spec_ExternalIPs (svc_Spec written) = spec_ExternalIPs (svc_Spec stored)"
    "spec_ClusterIP (svc_Spec written) = spec_ClusterIP (svc_Spec stored)"
    "spec_Selector (svc_Spec written) = spec_Selector (svc_Spec stored)"
    by (simp_all add: w overwriteOwned_frame)
  from svc get owned frame listing resolved address ports show ?thesis
    by blast
qed

theorem reconcileServices_update_overwrites_only_owned_witness:
  "\<exists>stored svc ipList ip.
     svc \<in> set [dns1, kubernetes1] \<and> isKubernetes svc \<and>
     Services_Get memClient (fst (snd (mirrorEndpoints memClient store1 svc)))
       externalServiceNamespace externalServiceName = Inr stored \<and>
     onlyOwnedOverwritten stored written1 \<and>
     svc_Name written1 = svc_Name stored \<and>
     svc_Namespace written1 = svc_Namespace stored \<and>
     svc_Labels written1 = svc_Labels stored \<and>
     svc_Annotations written1 = svc_Annotations stored \<and>
     svc_ResourceVersion written1 = svc_ResourceVersion stored \<and>
     svc_Status written1 = svc_Status stored \<and>
     spec_Type (svc_Spec written1) = spec_Type (svc_Spec stored) \<and>
     spec_ExternalIPs (svc_Spec written1) = spec_ExternalIPs (svc_Spec stored) \<and>
     spec_ClusterIP (svc_Spec written1) = spec_ClusterIP (svc_Spec stored) \<and>
     spec_Selector (svc_Spec written1) = spec_Selector (svc_Spec stored) \<and>
     ipResSvr_List cloud1 (projectID manager1) = Inr ipList \<and>
     ipReservationByAllTags [eipTag manager1] ipList = Some ip \<and>
     spec_LoadBalancerIP (svc_Spec written1) = res_Address ip \<and>
     spec_Ports (svc_Spec written1) =
       (spec_Ports (svc_Spec svc))
         [0 := (spec_Ports (svc_Spec svc) ! 0)\<lparr>sp_Port :=
            (if apiServerPort manager1 = 0
             then IntVal (sp_TargetPort (spec_Ports (svc_Spec svc) ! 0))
             else apiServerPort manager1)\<rparr>]"
proof -
  have issued: "UpdateService written1 \<in>
      set (serviceCalls (reconcileServices cloud1 memClient manager1 store1 [dns1, kubernetes1] ModeSync))"
    by (simp add: serviceCalls_def services_defs orchestrator_defs written1_def
          cloud1_def manager1_def eip1_def)
  show ?thesis
    by (rule reconcileServices_update_overwrites_only_owned [OF issued])
qed

text \<open>
  The other write to the mirrored service is the status update at the end: it writes the
  object read after the update or creation, with the status replaced and nothing else.
\<close>

lemma publishStatus_status:
  assumes "UpdateStatus s \<in> set (snd (snd (publishStatus k8s k eip)))"
  shows "\<exists>stored. Services_Get k8s k externalServiceNamespace externalServiceName = Inr stored \<and>
           s = stored\<lparr>svc_Status := [eip]\<rparr>"
  using assms by (auto simp: publishStatus_def split: sum.splits prod.splits)

lemma mirrorService_calls:
  "\<exists>ka first rest.
     snd (snd (mirrorService k8s k eip ports)) =
       GetService externalServiceNamespace externalServiceName # first # rest \<and>
     (first = CreateService (externalService eip ports) \<or>
      (\<exists>stored. first = UpdateService (overwriteOwned stored (externalService eip ports)))) \<and>
     (rest = [] \<or> rest = snd (snd (publishStatus k8s ka eip)))"
proof (cases "Services_Get k8s k externalServiceNamespace externalServiceName")
  case (Inl err)
  obtain r k' where cr: "Services_Create k8s k (externalService eip ports) = (r, k')"
    by (cases "Services_Create k8s k (externalService eip ports)")
  show ?thesis
    using Inl cr by (cases r) (auto simp: mirrorService_def case_prod_beta)
next
  case (Inr stored)
  obtain r k' where up:
    "Services_Update k8s k (overwriteOwned stored (externalService eip ports)) = (r, k')"
    by (cases "Services_Update k8s k (overwriteOwned stored (externalService eip ports))")
  show ?thesis
    using Inr up by (cases r) (auto simp: mirrorService_def case_prod_beta)
qed

lemma mirrorService_status:
  assumes "UpdateStatus s \<in> set (snd (snd (mirrorService k8s k eip ports)))"
  shows "\<exists>stored ka. Services_Get k8s ka externalServiceNamespace externalServiceName = Inr stored \<and>
           s = stored\<lparr>svc_Status := [eip]\<rparr>"
proof -
  from mirrorService_calls [of k8s k eip ports] assms
  have "\<exists>ka. UpdateStatus s \<in> set (snd (snd (publishStatus k8s ka eip)))"
    by auto
  then obtain ka where "UpdateStatus s \<in> set (snd (snd (publishStatus k8s ka eip)))" ..
  from publishStatus_status [OF this] show ?thesis by blast
qed

lemma mirrorEndpoints_no_status: "UpdateStatus s \<notin> set (snd (snd (mirrorEndpoints k8s k svc)))"
  by (simp add: mirrorEndpoints_def split: sum.splits prod.splits)

lemma mirrorKubernetes_status:
  assumes "UpdateStatus s \<in> set (snd (snd (snd (mirrorKubernetes k8s m k eip svc))))"
  shows "\<exists>stored ka. Services_Get k8s ka externalServiceNamespace externalServiceName = Inr stored \<and>
           s = stored\<lparr>svc_Status := [eip]\<rparr>"
proof -
  obtain r k' tr where ep: "mirrorEndpoints k8s k svc = (r, k', tr)"
    by (cases "mirrorEndpoints k8s k svc") auto
  have tr: "UpdateStatus s \<notin> set tr"
    using mirrorEndpoints_no_status [of s k8s k svc] ep by simp
  let ?ports = "externalPorts (apiServerPort (trackPorts m (spec_Ports (svc_Spec svc))))
                  (spec_Ports (svc_Spec svc))"
  from assms ep tr have "UpdateStatus s \<in> set (snd (snd (mirrorService k8s k' eip ?ports)))"
    by (auto simp: mirrorKubernetes_def Let_def split: if_splits option.splits prod.splits)
  then show ?thesis by (rule mirrorService_status)
qed

lemma servicesLoop_status:
  assumes "UpdateStatus s \<in> set (snd (snd (snd (servicesLoop k8s m k eip mode svcs))))"
  shows "\<exists>stored ka. Services_Get k8s ka externalServiceNamespace externalServiceName = Inr stored \<and>
           s = stored\<lparr>svc_Status := [eip]\<rparr>"
  using assms
proof (induction svcs)
  case Nil
  then show ?case by (simp split: if_splits)
next
  case (Cons x svcs)
  show ?case
  proof (cases "svc_Namespace x \<noteq> ''default'' \<or> svc_Name x \<noteq> ''kubernetes''")
    case True
    with Cons.prems have "UpdateStatus s \<in> set (snd (snd (snd (servicesLoop k8s m k eip mode svcs))))"
      by simp
    then show ?thesis by (rule Cons.IH)
  next
    case False
    with Cons.prems have "UpdateStatus s \<in> set (snd (snd (snd (mirrorKubernetes k8s m k eip x))))"
      by simp
    then show ?thesis by (rule mirrorKubernetes_status)
  qed
qed

lemma reconcileServices_status_update_frame:
  assumes "UpdateStatus s \<in> set (serviceCalls (reconcileServices c k8s m k svcs mode))"
  shows "\<exists>stored ka. Services_Get k8s ka externalServiceNamespace externalServiceName = Inr stored \<and>
           s = stored\<lparr>svc_Status := svc_Status s\<rparr>"
proof -
  have "\<exists>eip. UpdateStatus s \<in> set (snd (snd (snd (servicesLoop k8s m k eip mode svcs))))"
    using assms reconcileServices_shape [of c k8s m k svcs mode] by auto
  then obtain eip where
    "UpdateStatus s \<in> set (snd (snd (snd (servicesLoop k8s m k eip mode svcs))))" ..
  from servicesLoop_status [OF this] obtain stored ka where
    "Services_Get k8s ka externalServiceNamespace externalServiceName = Inr stored"
    "s = stored\<lparr>svc_Status := [eip]\<rparr>"
    by blast
  then show ?thesis by auto
qed

text \<open>
  In the store held in memory, the mirrored service after the run is the one stored
  before it with the new address, the new ports and the status: its labels and
  annotations are still there.
\<close>

lemma mirrored_service_after_update:
  "st_Services (fst (snd (snd (reconcileServices cloud1 memClient manager1 store1
                                 [dns1, kubernetes1] ModeSync))))
     (externalServiceNamespace, externalServiceName) =
   Some (written1\<lparr>svc_Status := [''192.0.2.10'']\<rparr>)"
  by (simp add: services_defs orchestrator_defs written1_def cloud1_def manager1_def eip1_def)

end
